theory Spec2Isabelle
  imports Complex_Main
begin

section \<open>The SCS conic-solver interface (scs\_conif.py)\<close>

text \<open>
  Floating-point numbers of the source are modelled as exact reals: \<open>np.sqrt(2)\<close> is
  \<open>sqrt 2\<close>, \<open>0.5\<close> is \<open>1/2\<close> and \<open>1e-4\<close> is \<open>1/10000\<close>. Every property below is about which
  entry lands where and with which coefficient; none depends on rounding.
\<close>

datatype py_error = ValueError | IndexError | KeyError | TypeError

subsection \<open>The array operations used by the source\<close>

type_synonym vec = "real list"

text \<open>A two-dimensional array is the list of its rows.\<close>

type_synonym ndarray2 = "real list list"

definition zeros :: "nat \<Rightarrow> nat \<Rightarrow> ndarray2" where
  "zeros r c = replicate r (replicate c 0)"

text \<open>
  \<open>np.tril_indices(n, k)\<close> and \<open>np.triu_indices(n, k)\<close> return the positions \<open>(i, j)\<close> of an
  \<open>n\<times>n\<close> array with \<open>j \<le> i + k\<close> (respectively \<open>j \<ge> i + k\<close>), enumerated row by row. The pair
  of index arrays numpy returns is kept here as one list of pairs.
\<close>

definition tril_indices :: "nat \<Rightarrow> int \<Rightarrow> (nat \<times> nat) list" where
  "tril_indices n k =
     concat (map (\<lambda>i. map (\<lambda>j. (i, j)) (filter (\<lambda>j. int j \<le> int i + k) [0..<n])) [0..<n])"

definition triu_indices :: "nat \<Rightarrow> int \<Rightarrow> (nat \<times> nat) list" where
  "triu_indices n k =
     concat (map (\<lambda>i. map (\<lambda>j. (i, j)) (filter (\<lambda>j. int i + k \<le> int j) [0..<n])) [0..<n])"

definition get_item :: "ndarray2 \<Rightarrow> nat \<times> nat \<Rightarrow> real" where
  "get_item a p = a ! fst p ! snd p"

definition set_item :: "ndarray2 \<Rightarrow> nat \<times> nat \<Rightarrow> real \<Rightarrow> ndarray2" where
  "set_item a p v = a[fst p := (a ! fst p)[snd p := v]]"

text \<open>\<open>a[idx] = v\<close> for a scalar \<open>v\<close>.\<close>

definition assign_scalar :: "ndarray2 \<Rightarrow> (nat \<times> nat) list \<Rightarrow> real \<Rightarrow> ndarray2" where
  "assign_scalar a idx v = fold (\<lambda>p b. set_item b p v) idx a"

text \<open>
  \<open>a[idx] = vs\<close> for a one-dimensional array \<open>vs\<close>: the k-th position receives the k-th
  value. numpy broadcasts an array of length one and raises ValueError for any other
  length that differs from the number of positions.
\<close>

definition assign_array :: "ndarray2 \<Rightarrow> (nat \<times> nat) list \<Rightarrow> vec \<Rightarrow> py_error + ndarray2" where
  "assign_array a idx vs =
     (if length vs = length idx then Inr (fold (\<lambda>(p, v) b. set_item b p v) (zip idx vs) a)
      else if length vs = 1 then Inr (assign_scalar a idx (hd vs))
      else Inl ValueError)"

text \<open>\<open>a[idx] /= d\<close>: the selected entries are read, divided, and written back.\<close>

definition idiv_at :: "ndarray2 \<Rightarrow> (nat \<times> nat) list \<Rightarrow> real \<Rightarrow> ndarray2" where
  "idiv_at a idx d =
     fold (\<lambda>(p, v) b. set_item b p v) (zip idx (map (\<lambda>p. get_item a p / d) idx)) a"

definition fill_diagonal :: "nat \<Rightarrow> ndarray2 \<Rightarrow> real \<Rightarrow> ndarray2" where
  "fill_diagonal n a v = assign_scalar a (map (\<lambda>i. (i, i)) [0..<n]) v"

text \<open>Column-major flattening (\<open>order='F'\<close>) of an array with \<open>r\<close> rows and \<open>c\<close> columns.\<close>

definition ravel_F :: "nat \<Rightarrow> nat \<Rightarrow> ndarray2 \<Rightarrow> vec" where
  "ravel_F r c a = concat (map (\<lambda>j. map (\<lambda>i. a ! i ! j) [0..<r]) [0..<c])"

text \<open>
  \<open>np.ravel_multi_index(idx, (r, c), order='F')\<close>: the column-major flat index of each
  position. The positions passed by the source come from \<open>tril_indices\<close> and are always
  inside the shape, so numpy's out-of-bounds error cannot arise.
\<close>

definition ravel_multi_index_F :: "(nat \<times> nat) list \<Rightarrow> nat \<Rightarrow> nat list" where
  "ravel_multi_index_F idx r = map (\<lambda>(i, j). i + r * j) idx"

text \<open>
  A sparse matrix built from coordinate triples, as \<open>sp.csc_matrix((vals, (rows, cols)), shape)\<close>
  does; scipy raises ValueError when the three arrays differ in length or a coordinate lies
  outside the shape.
\<close>

record spmatrix =
  nrows :: nat
  ncols :: nat
  triples :: "(nat \<times> nat \<times> real) list"

definition csc_matrix :: "vec \<Rightarrow> nat list \<Rightarrow> nat list \<Rightarrow> nat \<times> nat \<Rightarrow> py_error + spmatrix" where
  "csc_matrix vals rws cls shape =
     (if length rws = length vals \<and> length cls = length vals
         \<and> list_all (\<lambda>r. r < fst shape) rws \<and> list_all (\<lambda>c. c < snd shape) cls
      then Inr \<lparr>nrows = fst shape, ncols = snd shape, triples = zip rws (zip cls vals)\<rparr>
      else Inl ValueError)"

text \<open>The product of a sparse matrix with a vector; entries at the same position add up.\<close>

definition matvec :: "spmatrix \<Rightarrow> vec \<Rightarrow> py_error + vec" where
  "matvec P x =
     (if length x = ncols P
      then Inr (map (\<lambda>i. sum_list (map (\<lambda>(r, c, v). v * x ! c)
                                      (filter (\<lambda>(r, c, v). r = i) (triples P))))
                    [0..<nrows P])
      else Inl ValueError)"

subsection \<open>The PSD vectorizer\<close>

definition scaled_lower_tri :: "nat \<Rightarrow> py_error + spmatrix" where
  "scaled_lower_tri sz =
     (let rows = sz; cols = sz;
          entries = rows * (cols + 1) div 2;
          row_arr = [0..<entries];
          lower_diag_indices = tril_indices rows 0;
          col_arr = sort (ravel_multi_index_F lower_diag_indices rows);
          val_arr = zeros rows cols;
          val_arr = assign_scalar val_arr lower_diag_indices (1 / sqrt 2);
          val_arr = fill_diagonal rows val_arr (1 / 2);
          val_arr = ravel_F rows cols val_arr;
          val_arr = filter (\<lambda>v. v \<noteq> 0) val_arr
      in csc_matrix val_arr row_arr col_arr (entries, rows * cols))"

text \<open>
  \<open>SCS.psd_format_mat(constr)\<close> repeats the body of \<open>scaled_lower_tri\<close> with
  \<open>constr.expr.shape[0]\<close> as the size; the constraint is represented by that side length.
\<close>

definition psd_format_mat :: "nat \<Rightarrow> py_error + spmatrix" where
  "psd_format_mat side =
     (let rows = side; cols = side;
          entries = rows * (cols + 1) div 2;
          row_arr = [0..<entries];
          lower_diag_indices = tril_indices rows 0;
          col_arr = sort (ravel_multi_index_F lower_diag_indices rows);
          val_arr = zeros rows cols;
          val_arr = assign_scalar val_arr lower_diag_indices (1 / sqrt 2);
          val_arr = fill_diagonal rows val_arr (1 / 2);
          val_arr = ravel_F rows cols val_arr;
          val_arr = filter (\<lambda>v. v \<noteq> 0) val_arr
      in csc_matrix val_arr row_arr col_arr (entries, rows * cols))"

definition tri_to_full :: "vec \<Rightarrow> nat \<Rightarrow> py_error + vec" where
  "tri_to_full lower_tri n =
     (let full = zeros n n in
      case assign_array full (triu_indices n 0) lower_tri of
        Inl e \<Rightarrow> Inl e
      | Inr full \<Rightarrow>
      (case assign_array full (tril_indices n 0) lower_tri of
        Inl e \<Rightarrow> Inl e
      | Inr full \<Rightarrow>
      (let full = idiv_at full (tril_indices n (- 1)) (sqrt 2);
           full = idiv_at full (triu_indices n 1) (sqrt 2)
       in Inr (ravel_F n n full))))"

text \<open>
  The docstring of \<open>psd_format_mat\<close> calls its result a matrix to multiply by PSD constraint
  coefficients. The forward vectorization of an \<open>n\<times>n\<close> array is the product of that matrix
  with the array stacked in column-major order; nothing is added to the matrix of the source.
\<close>

definition forward_vectorize :: "nat \<Rightarrow> ndarray2 \<Rightarrow> py_error + vec" where
  "forward_vectorize n M =
     (case psd_format_mat n of
        Inl e \<Rightarrow> Inl e
      | Inr P \<Rightarrow> matvec P (ravel_F n n M))"

text \<open>An \<open>n\<times>n\<close> array, and a symmetric one.\<close>

definition square_mat :: "nat \<Rightarrow> ndarray2 \<Rightarrow> bool" where
  "square_mat n M \<longleftrightarrow> length M = n \<and> list_all (\<lambda>r. length r = n) M"

definition symmetric_mat :: "nat \<Rightarrow> ndarray2 \<Rightarrow> bool" where
  "symmetric_mat n M \<longleftrightarrow>
     square_mat n M \<and> list_all (\<lambda>i. list_all (\<lambda>j. M ! i ! j = M ! j ! i) [0..<n]) [0..<n]"

subsection \<open>Settings and collaborators of the solver interface\<close>

text \<open>
  Modelled from the spec: the caller-level status taxonomy, the constants \<open>s.OPTIMAL\<close>, ...
  of the settings module, which lies outside this file.
\<close>

datatype status =
    OPTIMAL | OPTIMAL_INACCURATE
  | UNBOUNDED | UNBOUNDED_INACCURATE
  | INFEASIBLE | INFEASIBLE_INACCURATE
  | SOLVER_ERROR

text \<open>
  Modelled from the spec: \<open>s.SOLUTION_PRESENT\<close> of the settings module, the statuses that
  signal a usable solution.
\<close>

definition SOLUTION_PRESENT :: "status list" where
  "SOLUTION_PRESENT = [OPTIMAL, OPTIMAL_INACCURATE]"

text \<open>Modelled from the spec: \<open>s.SOLVE_TIME\<close>, a key of the attribute bag.\<close>

definition SOLVE_TIME :: string where
  "SOLVE_TIME = ''solve_time''"

text \<open>Modelled from the spec: \<open>s.SETUP_TIME\<close>, a key of the attribute bag.\<close>

definition SETUP_TIME :: string where
  "SETUP_TIME = ''setup_time''"

text \<open>Modelled from the spec: \<open>s.NUM_ITERS\<close>, a key of the attribute bag.\<close>

definition NUM_ITERS :: string where
  "NUM_ITERS = ''num_iters''"

text \<open>Modelled from the spec: the fixed identifier \<open>DUAL_VAR_ID\<close> of the dual variables.\<close>

definition DUAL_VAR_ID :: string where
  "DUAL_VAR_ID = ''dual_var_id''"

text \<open>Modelled from the spec: \<open>s.SCS\<close>, the solver's name returned by \<open>SCS.name()\<close>.\<close>

definition name :: string where
  "name = ''SCS''"

text \<open>Scalars stored in option maps and attribute bags.\<close>

datatype py_val = PyFloat real | PyInt int | PyBool bool

record cone_dims =
  zero_dim :: nat
  nonpos_dim :: nat
  soc_dims :: "nat list"
  exp_dim :: nat
  psd_dims :: "nat list"

text \<open>The cones dictionary handed to the solver, with its five fixed keys.\<close>

record cones =
  cone_f :: nat
  cone_l :: nat
  cone_q :: "nat list"
  cone_ep :: nat
  cone_s :: "nat list"

definition dims_to_solver_dict :: "cone_dims \<Rightarrow> cones" where
  "dims_to_solver_dict cd =
     \<lparr>cone_f = zero_dim cd, cone_l = nonpos_dim cd, cone_q = soc_dims cd,
      cone_ep = exp_dim cd, cone_s = psd_dims cd\<rparr>"

text \<open>A matrix with its shape; \<open>elems\<close> is the list of rows.\<close>

record matrix =
  n_rows :: nat
  n_cols :: nat
  elems :: "real list list"

definition wf_matrix :: "matrix \<Rightarrow> bool" where
  "wf_matrix m \<longleftrightarrow> length (elems m) = n_rows m \<and> list_all (\<lambda>r. length r = n_cols m) (elems m)"

text \<open>
  The problem handed to \<open>apply\<close>, represented by what the collaborators outside this file
  return for it: the identifier \<open>problem.x.id\<close>, the cone dimensions
  \<open>ConeDims(group_constraints(problem.constraints))\<close>, and the cost vector \<open>c\<close> and affine
  map \<open>A\<close> of \<open>format_constraints(...).apply_parameters()\<close>.
\<close>

record problem =
  x_id :: int
  constr_dims :: cone_dims
  prob_c :: vec
  prob_A :: matrix

record solver_data =
  data_dims :: cone_dims
  data_c :: vec
  data_A :: matrix
  data_b :: vec

record inverse_data =
  inv_var_id :: int
  inv_dims :: cone_dims
  inv_offset :: real

record info =
  info_status :: string
  info_pobj :: real
  info_solveTime :: real
  info_setupTime :: real
  info_iter :: int

record raw_result =
  res_x :: vec
  res_y :: vec
  res_s :: vec
  res_info :: info

text \<open>The optimal value of a solution: a number, an infinity, or Python's \<open>None\<close>.\<close>

datatype opt_value = Value real | PosInf | NegInf | NoValue

record solution =
  sol_status :: status
  sol_opt_val :: opt_value
  sol_primal_vars :: "int \<rightharpoonup> vec"
  sol_dual_vars :: "string \<rightharpoonup> vec"
  sol_attr :: "string \<rightharpoonup> py_val"

text \<open>
  Modelled from the spec: \<open>failure_solution(status)\<close>, defined outside this file, returns a
  record carrying only the status, with no primal or dual map and no attributes; the optimal
  value is an infinity sentinel for the infeasible and unbounded statuses and absent otherwise.
\<close>

definition failure_solution :: "status \<Rightarrow> solution" where
  "failure_solution st =
     \<lparr>sol_status = st,
      sol_opt_val = (if st = INFEASIBLE then PosInf else if st = UNBOUNDED then NegInf else NoValue),
      sol_primal_vars = Map.empty, sol_dual_vars = Map.empty, sol_attr = Map.empty\<rparr>"

text \<open>A constraint: its cone kind with its row count, or for a PSD constraint its side length.\<close>

datatype constraint = Zero nat | NonPos nat | SOC nat | ExpCone nat | PSD nat

text \<open>The slice \<open>xs[a:b]\<close> for \<open>0 \<le> a\<close>; Python truncates it at the end of the array.\<close>

definition py_slice :: "'a list \<Rightarrow> nat \<Rightarrow> nat \<Rightarrow> 'a list" where
  "py_slice xs a b = take (b - a) (drop a xs)"

text \<open>The value extracted for a constraint: an array, or a single number.\<close>

datatype dual_value = Array vec | Scalar real

subsection \<open>The class SCS\<close>

definition STATUS_MAP :: "string \<rightharpoonup> status" where
  "STATUS_MAP = map_of
     [(''Solved'', OPTIMAL),
      (''Solved/Inaccurate'', OPTIMAL_INACCURATE),
      (''Unbounded'', UNBOUNDED),
      (''Unbounded/Inaccurate'', UNBOUNDED_INACCURATE),
      (''Infeasible'', INFEASIBLE),
      (''Infeasible/Inaccurate'', INFEASIBLE_INACCURATE),
      (''Failure'', SOLVER_ERROR),
      (''Indeterminate'', SOLVER_ERROR),
      (''Interrupted'', SOLVER_ERROR)]"

text \<open>
  The method \<open>SCS.apply\<close>. The slices \<open>c[:-1]\<close> and \<open>A[:, :-1]\<close> drop the last entry or
  column; \<open>c[-1]\<close> and \<open>A[:, -1]\<close> raise IndexError when there is none. The entry
  \<open>data[s.PARAM_PROB]\<close>, the formatted problem itself, is read by no function of this file
  and has no field in \<open>solver_data\<close>.
\<close>

definition SCS_apply :: "problem \<Rightarrow> py_error + solver_data \<times> inverse_data" where
  "SCS_apply problem =
     (let dims = constr_dims problem;
          c = prob_c problem;
          A = prob_A problem
      in if c = [] then Inl IndexError
         else if n_cols A = 0 then Inl IndexError
         else Inr (\<lparr>data_dims = dims,
                    data_c = butlast c,
                    data_A = \<lparr>n_rows = n_rows A, n_cols = n_cols A - 1,
                              elems = map (\<lambda>r. map uminus (butlast r)) (elems A)\<rparr>,
                    data_b = map last (elems A)\<rparr>,
                   \<lparr>inv_var_id = x_id problem, inv_dims = dims, inv_offset = last c\<rparr>))"

text \<open>
  The generic \<open>utilities.extract_dual_value\<close>, to which every constraint other than a PSD one
  is handed, lies outside this file and is the parameter \<open>generic\<close>.
\<close>

definition extract_dual_value ::
  "(vec \<Rightarrow> nat \<Rightarrow> constraint \<Rightarrow> py_error + dual_value \<times> nat)
   \<Rightarrow> vec \<Rightarrow> nat \<Rightarrow> constraint \<Rightarrow> py_error + dual_value \<times> nat" where
  "extract_dual_value generic result_vec offset constr =
     (case constr of
        PSD side \<Rightarrow>
          (let lower_tri_dim = side * (side + 1) div 2;
               new_offset = offset + lower_tri_dim;
               lower_tri = py_slice result_vec offset new_offset
           in case tri_to_full lower_tri side of
                Inl e \<Rightarrow> Inl e
              | Inr full \<Rightarrow> Inr (Array full, new_offset))
      | _ \<Rightarrow> generic result_vec offset constr)"

text \<open>
  \<open>STATUS_MAP[...]\<close> raises KeyError for a status string that is not a key. The conversion
  \<open>const_to_matrix\<close> keeps the entries of the vector and is left out.
\<close>

definition invert :: "raw_result \<Rightarrow> inverse_data \<Rightarrow> py_error + solution" where
  "invert solution inverse_data =
     (case STATUS_MAP (info_status (res_info solution)) of
        None \<Rightarrow> Inl KeyError
      | Some status \<Rightarrow>
          (let attr = Map.empty;
               attr = attr(SOLVE_TIME \<mapsto> PyFloat (info_solveTime (res_info solution)));
               attr = attr(SETUP_TIME \<mapsto> PyFloat (info_setupTime (res_info solution)));
               attr = attr(NUM_ITERS \<mapsto> PyInt (info_iter (res_info solution)))
           in if status \<in> set SOLUTION_PRESENT
              then (let primal_val = info_pobj (res_info solution);
                        opt_val = primal_val + inv_offset inverse_data;
                        primal_vars = [inv_var_id inverse_data \<mapsto> res_x solution];
                        dual_vars = [DUAL_VAR_ID \<mapsto> res_y solution]
                    in Inr \<lparr>sol_status = status, sol_opt_val = Value opt_val,
                            sol_primal_vars = primal_vars, sol_dual_vars = dual_vars,
                            sol_attr = attr\<rparr>)
              else Inr (failure_solution status)))"

text \<open>
  The request handed to the solver is a dictionary whose values are the matrix and the
  vectors of the problem.
\<close>

datatype arg_val = MatArg matrix | VecArg vec

text \<open>
  The external solver \<open>scs.solve\<close> is a parameter. The mutable arguments \<open>solver_opts\<close> and
  \<open>solver_cache\<close> (\<open>None\<close> when no cache is supplied) are returned in their final state next
  to the result. The call passes \<open>verbose\<close> by keyword next to \<open>**solver_opts\<close>, which Python
  rejects with TypeError when the options themselves hold a \<open>verbose\<close> key.
\<close>

definition solve_via_data ::
  "((string \<rightharpoonup> arg_val) \<Rightarrow> cones \<Rightarrow> bool \<Rightarrow> (string \<rightharpoonup> py_val) \<Rightarrow> raw_result)
   \<Rightarrow> solver_data \<Rightarrow> bool \<Rightarrow> bool \<Rightarrow> (string \<rightharpoonup> py_val) \<Rightarrow> (string \<rightharpoonup> raw_result) option
   \<Rightarrow> py_error + raw_result \<times> (string \<rightharpoonup> py_val) \<times> (string \<rightharpoonup> raw_result) option" where
  "solve_via_data scs_solve data warm_start verbose solver_opts solver_cache =
     (let args = [''A'' \<mapsto> MatArg (data_A data), ''b'' \<mapsto> VecArg (data_b data),
                  ''c'' \<mapsto> VecArg (data_c data)];
          args = (if warm_start \<and> solver_cache \<noteq> None \<and> name \<in> dom (the solver_cache)
                  then args(''x'' \<mapsto> VecArg (res_x (the (the solver_cache name))),
                            ''y'' \<mapsto> VecArg (res_y (the (the solver_cache name))),
                            ''s'' \<mapsto> VecArg (res_s (the (the solver_cache name))))
                  else args);
          cones = dims_to_solver_dict (data_dims data);
          solver_opts = solver_opts(''eps'' \<mapsto>
                          (case solver_opts ''eps'' of None \<Rightarrow> PyFloat (1 / 10000) | Some e \<Rightarrow> e))
      in if ''verbose'' \<in> dom solver_opts then Inl TypeError
         else (let results = scs_solve args cones verbose solver_opts;
                   solver_cache = (if solver_cache \<noteq> None
                                   then Some ((the solver_cache)(name \<mapsto> results))
                                   else solver_cache)
               in Inr (results, solver_opts, solver_cache)))"

subsection \<open>Notions used to state the properties\<close>

text \<open>
  The values \<open>f i j\<close> over the lower triangle \<open>j \<le> i < n\<close>, listed column by column: the
  column-major order of the lower-triangular entries.
\<close>

definition lower_colmajor :: "nat \<Rightarrow> (nat \<Rightarrow> nat \<Rightarrow> 'a) \<Rightarrow> 'a list" where
  "lower_colmajor n f = concat (map (\<lambda>j. map (\<lambda>i. f i j) [j..<n]) [0..<n])"

text \<open>The coefficient the format matrix holds for the entry \<open>(i, j)\<close> of the lower triangle.\<close>

definition format_coef :: "nat \<Rightarrow> nat \<Rightarrow> real" where
  "format_coef i j = (if i = j then 1 / 2 else 1 / sqrt 2)"

text \<open>
  The forward vectorization in the words of the spec: the lower-triangular entries in
  column-major order, the off-diagonal ones scaled by \<open>1/\<surd>2\<close>, the diagonal ones left
  unscaled.
\<close>

definition spec_forward_vectorize :: "nat \<Rightarrow> ndarray2 \<Rightarrow> vec" where
  "spec_forward_vectorize n M =
     lower_colmajor n (\<lambda>i j. if i = j then M ! i ! i else M ! i ! j / sqrt 2)"

subsection \<open>Concrete inputs used in the examples\<close>

text \<open>A raw result with a failure status and nonzero diagnostics.\<close>

definition infeasible_result :: raw_result where
  "infeasible_result =
     \<lparr>res_x = [], res_y = [], res_s = [],
      res_info = \<lparr>info_status = ''Infeasible'', info_pobj = 0, info_solveTime = 3 / 2,
                  info_setupTime = 1 / 4, info_iter = 20\<rparr>\<rparr>"

text \<open>
  A stand-in solver for concrete runs: it reports the warm-start vectors it was given, and
  as objective the tolerance \<open>eps\<close> it was given.
\<close>

definition echo_vec :: "(string \<rightharpoonup> arg_val) \<Rightarrow> string \<Rightarrow> vec" where
  "echo_vec args k = (case args k of Some (VecArg v) \<Rightarrow> v | _ \<Rightarrow> [])"

definition echo_solver ::
  "(string \<rightharpoonup> arg_val) \<Rightarrow> cones \<Rightarrow> bool \<Rightarrow> (string \<rightharpoonup> py_val) \<Rightarrow> raw_result" where
  "echo_solver args cns verbose opts =
     \<lparr>res_x = echo_vec args ''x'', res_y = echo_vec args ''y'', res_s = echo_vec args ''s'',
      res_info = \<lparr>info_status = ''Solved'',
                  info_pobj = (case opts ''eps'' of Some (PyFloat e) \<Rightarrow> e | _ \<Rightarrow> 0),
                  info_solveTime = 0, info_setupTime = 0, info_iter = 0\<rparr>\<rparr>"


text \<open>The data of the linear program \<open>minimize x subject to x \<ge> 1\<close>, and a result of solving it.\<close>

definition lp_data :: solver_data where
  "lp_data =
     \<lparr>data_dims = \<lparr>zero_dim = 0, nonpos_dim = 1, soc_dims = [], exp_dim = 0, psd_dims = []\<rparr>,
      data_c = [1], data_A = \<lparr>n_rows = 1, n_cols = 1, elems = [[- 1]]\<rparr>, data_b = [- 1]\<rparr>"

definition previous_result :: raw_result where
  "previous_result =
     \<lparr>res_x = [1], res_y = [1], res_s = [0],
      res_info = \<lparr>info_status = ''Solved'', info_pobj = 1, info_solveTime = 0,
                  info_setupTime = 0, info_iter = 12\<rparr>\<rparr>"

text \<open>
  What the stand-in solver reports on a warm start from \<open>previous_result\<close> with the default
  tolerance, and on a cold start with the tolerance \<open>1e-3\<close>.
\<close>

definition warm_result :: raw_result where
  "warm_result =
     \<lparr>res_x = [1], res_y = [1], res_s = [0],
      res_info = \<lparr>info_status = ''Solved'', info_pobj = 1 / 10000, info_solveTime = 0,
                  info_setupTime = 0, info_iter = 0\<rparr>\<rparr>"

definition cold_result :: raw_result where
  "cold_result =
     \<lparr>res_x = [], res_y = [], res_s = [],
      res_info = \<lparr>info_status = ''Solved'', info_pobj = 1 / 1000, info_solveTime = 0,
                  info_setupTime = 0, info_iter = 0\<rparr>\<rparr>"

section \<open>Properties\<close>

subsection \<open>The triangle index lists\<close>

lemma filter_le_upt: "i < n \<Longrightarrow> filter (\<lambda>j. j \<le> i) [0..<n] = [0..<Suc i]"
proof (induction n)
  case 0 then show ?case by simp
next
  case (Suc n)
  show ?case
  proof (cases "i < n")
    case True
    with Suc.IH show ?thesis by simp
  next
    case False
    with Suc.prems have "i = n" by simp
    then show ?thesis by (simp add: filter_id_conv)
  qed
qed

lemma filter_ge_upt: "filter (\<lambda>j. i \<le> j) [0..<n] = [i..<n]"
proof (induction n)
  case 0 then show ?case by simp
next
  case (Suc n)
  then show ?case by (cases "i \<le> n") auto
qed

lemma filter_lt_upt: "i \<le> n \<Longrightarrow> filter (\<lambda>j. j < i) [0..<n] = [0..<i]"
proof (induction n)
  case 0 then show ?case by simp
next
  case (Suc n)
  show ?case
  proof (cases "i \<le> n")
    case True
    with Suc.IH show ?thesis by simp
  next
    case False
    with Suc.prems have "i = Suc n" by simp
    then show ?thesis by (simp add: filter_id_conv)
  qed
qed

lemma tril_indices_0: "tril_indices n 0 = concat (map (\<lambda>i. map (\<lambda>j. (i, j)) [0..<Suc i]) [0..<n])"
  unfolding tril_indices_def
  by (rule arg_cong [where f = concat], rule map_cong) (simp_all add: filter_le_upt)

lemma triu_indices_0: "triu_indices n 0 = concat (map (\<lambda>i. map (\<lambda>j. (i, j)) [i..<n]) [0..<n])"
  unfolding triu_indices_def
  by (simp add: filter_ge_upt)

lemma sum_list_Suc_upt: "sum_list (map Suc [0..<n]) = n * (n + 1) div 2"
  by (induction n) auto

lemma sum_list_diff_upt: "sum_list (map (\<lambda>i. n - i) [0..<n]) = n * (n + 1) div 2"
proof -
  have "map (\<lambda>i. n - i) [0..<n] = rev (map Suc [0..<n])"
    by (rule nth_equalityI) (auto simp: rev_nth)
  then show ?thesis
    by (simp only: sum_list_rev sum_list_Suc_upt)
qed

lemma length_tril_indices_0: "length (tril_indices n 0) = n * (n + 1) div 2"
proof -
  have "map (length \<circ> (\<lambda>i. map (Pair i) [0..<Suc i])) [0..<n] = map Suc [0..<n]"
    by simp
  then show ?thesis
  unfolding tril_indices_0 length_concat map_map
  by (simp only: sum_list_Suc_upt)
qed

lemma length_triu_indices_0: "length (triu_indices n 0) = n * (n + 1) div 2"
proof -
  have "map (length \<circ> (\<lambda>i. map (Pair i) [i..<n])) [0..<n] = map (\<lambda>i. n - i) [0..<n]"
    by simp
  then show ?thesis
  unfolding triu_indices_0 length_concat map_map
  by (simp only: sum_list_diff_upt)
qed


subsection \<open>The column-major enumeration of the lower triangle\<close>

lemma length_lower_colmajor: "length (lower_colmajor n f) = n * (n + 1) div 2"
proof -
  have "map (length \<circ> (\<lambda>j. map (\<lambda>i. f i j) [j..<n])) [0..<n] = map (\<lambda>j. n - j) [0..<n]"
    by simp
  then show ?thesis
    unfolding lower_colmajor_def length_concat map_map
    by (simp only: sum_list_diff_upt)
qed

lemma map_lower_colmajor: "map h (lower_colmajor n f) = lower_colmajor n (\<lambda>i j. h (f i j))"
  by (simp add: lower_colmajor_def map_concat o_def)

lemma lower_colmajor_cong:
  assumes "\<And>i j. j \<le> i \<Longrightarrow> i < n \<Longrightarrow> f i j = g i j"
  shows "lower_colmajor n f = lower_colmajor n g"
  unfolding lower_colmajor_def
  by (rule arg_cong [where f = concat], rule map_cong) (simp_all add: assms)

lemma zip_concat_map:
  assumes "\<And>x. x \<in> set xs \<Longrightarrow> length (f x) = length (g x)"
  shows "zip (concat (map f xs)) (concat (map g xs)) = concat (map (\<lambda>x. zip (f x) (g x)) xs)"
  using assms by (induction xs) simp_all

lemma zip_lower_colmajor:
  "zip (lower_colmajor n f) (lower_colmajor n g) = lower_colmajor n (\<lambda>i j. (f i j, g i j))"
  unfolding lower_colmajor_def
  by (subst zip_concat_map) (simp_all add: zip_map_map zip_same_conv_map o_def)

lemma set_lower_colmajor:
  "set (lower_colmajor n f) = {f i j | i j. j \<le> i \<and> i < n}"
proof (intro set_eqI iffI)
  fix x assume "x \<in> set (lower_colmajor n f)"
  then obtain i j where "x = f i j" "j \<le> i" "i < n"
    unfolding lower_colmajor_def by auto
  then show "x \<in> {f i j | i j. j \<le> i \<and> i < n}" by blast
next
  fix x assume "x \<in> {f i j | i j. j \<le> i \<and> i < n}"
  then obtain i j where x: "x = f i j" and ij: "j \<le> i" "i < n" by blast
  then have "j \<in> set [0..<n]" and "x \<in> set (map (\<lambda>i. f i j) [j..<n])" by auto
  then show "x \<in> set (lower_colmajor n f)"
    unfolding lower_colmajor_def set_concat by (intro UN_I [where a = "map (\<lambda>i. f i j) [j..<n]"]) auto
qed

subsection \<open>Entries after index assignments\<close>

lemma square_mat_nth: "square_mat n a \<Longrightarrow> i < n \<Longrightarrow> length (a ! i) = n"
  by (simp add: square_mat_def list_all_length)

lemma square_mat_zeros: "square_mat n (zeros n n)"
  by (simp add: square_mat_def zeros_def list_all_length)

lemma zeros_nth: "i < n \<Longrightarrow> j < n \<Longrightarrow> zeros n n ! i ! j = 0"
  by (simp add: zeros_def)

lemma square_mat_set_item:
  assumes "square_mat n a"
  shows "square_mat n (set_item a p v)"
proof (cases "fst p < length a")
  case True
  with assms show ?thesis
    by (auto simp: square_mat_def set_item_def list_all_length nth_list_update)
next
  case False
  then have "set_item a p v = a"
    by (simp add: set_item_def list_update_beyond)
  with assms show ?thesis by simp
qed

lemma set_item_nth:
  assumes "square_mat n a" "fst p < n" "snd p < n" "i < n" "j < n"
  shows "set_item a p v ! i ! j = (if (i, j) = p then v else a ! i ! j)"
  using assms
  by (cases p) (auto simp: square_mat_def set_item_def list_all_length nth_list_update)

lemma assign_scalar_square:
  "square_mat n a \<Longrightarrow> square_mat n (assign_scalar a idx v)"
  unfolding assign_scalar_def
  by (induction idx arbitrary: a) (simp_all add: square_mat_set_item)

lemma assign_scalar_nth:
  assumes "square_mat n a" "\<And>p. p \<in> set idx \<Longrightarrow> fst p < n \<and> snd p < n" "i < n" "j < n"
  shows "assign_scalar a idx v ! i ! j = (if (i, j) \<in> set idx then v else a ! i ! j)"
  using assms unfolding assign_scalar_def
proof (induction idx arbitrary: a)
  case Nil
  then show ?case by simp
next
  case (Cons p ps)
  have sq: "square_mat n (set_item a p v)"
    using Cons.prems(1) by (rule square_mat_set_item)
  have "fold (\<lambda>p b. set_item b p v) ps (set_item a p v) ! i ! j
          = (if (i, j) \<in> set ps then v else set_item a p v ! i ! j)"
    using Cons.IH [OF sq] Cons.prems by simp
  moreover have "set_item a p v ! i ! j = (if (i, j) = p then v else a ! i ! j)"
    using Cons.prems by (intro set_item_nth) simp_all
  ultimately show ?case by auto
qed

lemma set_tril_indices_0: "set (tril_indices n 0) = {(i, j). j \<le> i \<and> i < n}"
  unfolding tril_indices_def by auto

lemma val_matrix_nth:
  assumes "i < n" "j < n"
  shows "fill_diagonal n (assign_scalar (zeros n n) (tril_indices n 0) c) d ! i ! j
           = (if i = j then d else if j < i then c else 0)"
proof -
  let ?a = "assign_scalar (zeros n n) (tril_indices n 0) c"
  have sq: "square_mat n ?a"
    by (rule assign_scalar_square) (rule square_mat_zeros)
  have a: "?a ! i ! j = (if j \<le> i then c else 0)"
    using assms
    by (subst assign_scalar_nth [where n = n])
      (auto simp: square_mat_zeros set_tril_indices_0 zeros_nth)
  have "fill_diagonal n ?a d ! i ! j = (if (i, j) \<in> set (map (\<lambda>i. (i, i)) [0..<n]) then d else ?a ! i ! j)"
    unfolding fill_diagonal_def using sq assms
    by (intro assign_scalar_nth [where n = n]) auto
  with a assms show ?thesis by auto
qed

lemma val_arr_eq:
  "filter (\<lambda>v. v \<noteq> 0)
     (ravel_F n n (fill_diagonal n (assign_scalar (zeros n n) (tril_indices n 0) (1 / sqrt 2)) (1 / 2)))
   = lower_colmajor n (\<lambda>i j. if i = j then 1 / 2 else 1 / sqrt 2)"
proof -
  let ?A = "fill_diagonal n (assign_scalar (zeros n n) (tril_indices n 0) (1 / sqrt 2)) (1 / 2)"
  have col: "filter (\<lambda>v. v \<noteq> 0) (map (\<lambda>i. ?A ! i ! j) [0..<n])
               = map (\<lambda>i. if i = j then 1 / 2 else 1 / sqrt 2) [j..<n]" if j: "j < n" for j
  proof -
    have "filter (\<lambda>v. v \<noteq> 0) (map (\<lambda>i. ?A ! i ! j) [0..<n])
            = map (\<lambda>i. ?A ! i ! j) (filter (\<lambda>i. ?A ! i ! j \<noteq> 0) [0..<n])"
      by (simp add: filter_map o_def)
    also have "filter (\<lambda>i. ?A ! i ! j \<noteq> 0) [0..<n] = filter (\<lambda>i. j \<le> i) [0..<n]"
      by (rule filter_cong) (auto simp: val_matrix_nth j)
    also have "\<dots> = [j..<n]" by (rule filter_ge_upt)
    also have "map (\<lambda>i. ?A ! i ! j) [j..<n] = map (\<lambda>i. if i = j then 1 / 2 else 1 / sqrt 2) [j..<n]"
      by (rule map_cong) (auto simp: val_matrix_nth j)
    finally show ?thesis .
  qed
  have "filter (\<lambda>v. v \<noteq> 0) (ravel_F n n ?A)
          = concat (map (\<lambda>j. filter (\<lambda>v. v \<noteq> 0) (map (\<lambda>i. ?A ! i ! j) [0..<n])) [0..<n])"
    by (simp add: ravel_F_def filter_concat o_def)
  also have "\<dots> = concat (map (\<lambda>j. map (\<lambda>i. if i = j then 1 / 2 else 1 / sqrt 2) [j..<n]) [0..<n])"
    by (rule arg_cong [where f = concat], rule map_cong) (simp_all add: col)
  finally show ?thesis by (simp add: lower_colmajor_def)
qed

subsection \<open>The sorted column indices\<close>

lemma sorted_wrt_concat_map_upt:
  assumes "\<And>j. j < m \<Longrightarrow> sorted_wrt R (f j)"
    and "\<And>j j' x y. j < j' \<Longrightarrow> j' < m \<Longrightarrow> x \<in> set (f j) \<Longrightarrow> y \<in> set (f j') \<Longrightarrow> R x y"
  shows "sorted_wrt R (concat (map f [0..<m]))"
  using assms
proof (induction m)
  case 0
  then show ?case by simp
next
  case (Suc m)
  have "sorted_wrt R (concat (map f [0..<m]))"
    using Suc.prems by (intro Suc.IH) auto
  moreover have "sorted_wrt R (f m)"
    using Suc.prems(1) by simp
  moreover have "\<forall>x \<in> set (concat (map f [0..<m])). \<forall>y \<in> set (f m). R x y"
    using Suc.prems(2) by auto
  ultimately show ?case
    by (simp add: sorted_wrt_append)
qed

lemma flat_index_less:
  fixes n :: nat
  assumes "i < n" "j < j'"
  shows "i + n * j < i' + n * j'"
proof -
  have "i + n * j < n + n * j" using assms by simp
  also have "\<dots> = n * Suc j" by simp
  also have "\<dots> \<le> n * j'" using assms by (intro mult_le_mono2) simp
  also have "\<dots> \<le> i' + n * j'" by simp
  finally show ?thesis .
qed

lemma strict_sorted_colmajor_index:
  "sorted_wrt (<) (lower_colmajor n (\<lambda>i j. i + n * j))"
  unfolding lower_colmajor_def
proof (rule sorted_wrt_concat_map_upt)
  fix j assume "j < n"
  show "sorted_wrt (<) (map (\<lambda>i. i + n * j) [j..<n])"
    by (simp add: sorted_wrt_map)
next
  fix j j' x y
  assume jj: "j < j'" "j' < n" and x: "x \<in> set (map (\<lambda>i. i + n * j) [j..<n])"
    and y: "y \<in> set (map (\<lambda>i. i + n * j') [j'..<n])"
  from x have "x \<in> (\<lambda>i. i + n * j) ` set [j..<n]" by (simp only: set_map)
  then obtain i where i: "x = i + n * j" "i \<in> set [j..<n]" by blast
  from y have "y \<in> (\<lambda>i. i + n * j') ` set [j'..<n]" by (simp only: set_map)
  then obtain i' where i': "y = i' + n * j'" by blast
  from i have "i < n" by simp
  then show "x < y" unfolding i(1) i' using jj(1) by (rule flat_index_less)
qed

lemma ravel_tril_indices:
  "ravel_multi_index_F (tril_indices n 0) n
     = concat (map (\<lambda>i. map (\<lambda>j. i + n * j) [0..<Suc i]) [0..<n])"
  by (simp add: ravel_multi_index_F_def tril_indices_0 map_concat o_def)

lemma set_ravel_tril_indices:
  "set (ravel_multi_index_F (tril_indices n 0) n) = {i + n * j | i j. j \<le> i \<and> i < n}"
  unfolding ravel_multi_index_F_def set_map set_tril_indices_0 by auto

lemma col_arr_eq:
  "sort (ravel_multi_index_F (tril_indices n 0) n) = lower_colmajor n (\<lambda>i j. i + n * j)"
proof -
  let ?rm = "ravel_multi_index_F (tril_indices n 0) n"
  let ?cm = "lower_colmajor n (\<lambda>i j. i + n * j)"
  have cm: "sorted ?cm" "distinct ?cm"
    using strict_sorted_colmajor_index [of n] by (simp_all add: strict_sorted_iff)
  have s: "set (sort ?rm) = set ?cm"
    by (simp add: set_ravel_tril_indices set_lower_colmajor)
  have "length (sort ?rm) = length ?cm"
    by (simp add: ravel_multi_index_F_def length_tril_indices_0 length_lower_colmajor)
  moreover have "card (set ?cm) = length ?cm"
    using cm(2) by (rule distinct_card)
  ultimately have "card (set (sort ?rm)) = length (sort ?rm)"
    using s by simp
  then have "distinct (sort ?rm)" by (rule card_distinct)
  moreover have "sorted (sort ?rm)" by simp
  ultimately show ?thesis
    using cm s by (intro sorted_distinct_set_unique)
qed

subsection \<open>The format matrix and its product with a vector\<close>

lemma psd_format_mat_eq:
  "psd_format_mat n =
     Inr \<lparr>nrows = n * (n + 1) div 2, ncols = n * n,
          triples = zip [0..<n * (n + 1) div 2]
                      (lower_colmajor n (\<lambda>i j. (i + n * j, format_coef i j)))\<rparr>"
proof -
  have in_shape: "list_all (\<lambda>c. c < n * n) (lower_colmajor n (\<lambda>i j. i + n * j))"
  proof -
    have "i + n * j < n * n" if "j \<le> i" "i < n" for i j
    proof -
      have "i + n * j < n + n * j" using that by simp
      also have "\<dots> = n * Suc j" by simp
      also have "\<dots> \<le> n * n" using that by (intro mult_le_mono2) simp
      finally show ?thesis .
    qed
    then show ?thesis
      by (auto simp: list_all_iff set_lower_colmajor)
  qed
  have rows_ok: "list_all (\<lambda>r. r < n * (n + 1) div 2) [0..<n * (n + 1) div 2]"
    by (simp add: list_all_iff)
  show ?thesis
    unfolding psd_format_mat_def Let_def col_arr_eq val_arr_eq csc_matrix_def
    using in_shape rows_ok
    by (simp add: length_lower_colmajor zip_lower_colmajor format_coef_def)
qed

lemma scaled_lower_tri_eq: "scaled_lower_tri n = psd_format_mat n"
  by (simp add: scaled_lower_tri_def psd_format_mat_def)

lemma filter_zip_upt:
  "filter (\<lambda>(r, y). r = i) (zip [k..<k + length ys] ys)
     = (if k \<le> i \<and> i < k + length ys then [(i, ys ! (i - k))] else [])"
proof (induction ys arbitrary: k)
  case Nil
  then show ?case by simp
next
  case (Cons y ys)
  have "[k..<k + length (y # ys)] = k # [Suc k..<Suc k + length ys]"
    by (subst upt_rec) simp
  then have "filter (\<lambda>(r, y). r = i) (zip [k..<k + length (y # ys)] (y # ys))
               = (if k = i then [(k, y)] else [])
                 @ filter (\<lambda>(r, y). r = i) (zip [Suc k..<Suc k + length ys] ys)"
    by simp
  also have "\<dots> = (if k \<le> i \<and> i < k + length (y # ys) then [(i, (y # ys) ! (i - k))] else [])"
    unfolding Cons.IH by (auto simp: nth_Cons')
  finally show ?case .
qed

lemma matvec_one_per_row:
  assumes "length cv = m" and "length x = k"
  shows "matvec \<lparr>nrows = m, ncols = k, triples = zip [0..<m] cv\<rparr> x
           = Inr (map (\<lambda>(c, v). v * x ! c) cv)"
proof -
  have row: "sum_list (map (\<lambda>(r, c, v). v * x ! c) (filter (\<lambda>(r, c, v). r = i) (zip [0..<m] cv)))
               = (\<lambda>(c, v). v * x ! c) (cv ! i)" if "i < m" for i
  proof -
    have e: "(\<lambda>(r, c, v). r = i) = (\<lambda>(r, y). r = i)"
      by (auto simp: fun_eq_iff)
    have "filter (\<lambda>(r, y). r = i) (zip [0..<m] cv) = [(i, cv ! i)]"
      using filter_zip_upt [of i 0 cv] assms(1) that by simp
    then have "filter (\<lambda>(r, c, v). r = i) (zip [0..<m] cv) = [(i, cv ! i)]"
      by (simp only: e)
    then show ?thesis by (simp add: case_prod_beta)
  qed
  have "map (\<lambda>i. sum_list (map (\<lambda>(r, c, v). v * x ! c)
                   (filter (\<lambda>(r, c, v). r = i) (zip [0..<m] cv)))) [0..<m]
          = map (\<lambda>i. (\<lambda>(c, v). v * x ! c) (cv ! i)) [0..<m]"
    by (rule map_cong) (simp_all add: row)
  also have "\<dots> = map (\<lambda>(c, v). v * x ! c) (map (\<lambda>i. cv ! i) [0..<length cv])"
    by (simp add: assms(1) o_def)
  also have "\<dots> = map (\<lambda>(c, v). v * x ! c) cv"
    by (simp only: map_nth)
  finally show ?thesis
    using assms(2) by (simp add: matvec_def)
qed

lemma length_ravel_F: "length (ravel_F r c a) = r * c"
  by (simp add: ravel_F_def length_concat o_def sum_list_triv)

lemma ravel_F_nth:
  assumes "i < r" "j < c"
  shows "ravel_F r c a ! (i + r * j) = a ! i ! j"
  using assms(2)
proof (induction c)
  case 0
  then show ?case by simp
next
  case (Suc c)
  have split: "ravel_F r (Suc c) a = ravel_F r c a @ map (\<lambda>i. a ! i ! c) [0..<r]"
    by (simp add: ravel_F_def)
  show ?case
  proof (cases "j < c")
    case True
    have "i + r * j < r + r * j" using assms(1) by simp
    also have "\<dots> = r * Suc j" by simp
    also have "\<dots> \<le> r * c" using True by (intro mult_le_mono2) simp
    finally have "i + r * j < length (ravel_F r c a)"
      by (simp add: length_ravel_F)
    then show ?thesis
      unfolding split using Suc.IH [OF True] by (simp add: nth_append)
  next
    case False
    with Suc.prems have "j = c" by simp
    then show ?thesis
      unfolding split using assms(1) by (simp add: nth_append length_ravel_F)
  qed
qed

lemma matvec_psd_format_mat:
  assumes "length x = n * n"
  shows "\<exists>P. psd_format_mat n = Inr P
     \<and> matvec P x = Inr (lower_colmajor n (\<lambda>i j. format_coef i j * x ! (i + n * j)))"
proof -
  have "matvec \<lparr>nrows = n * (n + 1) div 2, ncols = n * n,
          triples = zip [0..<n * (n + 1) div 2]
                      (lower_colmajor n (\<lambda>i j. (i + n * j, format_coef i j)))\<rparr> x
        = Inr (map (\<lambda>(c, v). v * x ! c) (lower_colmajor n (\<lambda>i j. (i + n * j, format_coef i j))))"
    using assms by (intro matvec_one_per_row) (simp_all add: length_lower_colmajor)
  then show ?thesis
    by (simp add: psd_format_mat_eq map_lower_colmajor)
qed

subsection \<open>Evaluation at size two\<close>

lemma upt_2: "[0..<2] = [0, Suc 0]"
  by (simp add: upt_conv_Cons numeral_2_eq_2)

lemma tril_indices_2_0: "tril_indices 2 0 = [(0, 0), (Suc 0, 0), (Suc 0, Suc 0)]"
  unfolding tril_indices_def upt_2 by simp

lemma triu_indices_2_0: "triu_indices 2 0 = [(0, 0), (0, Suc 0), (Suc 0, Suc 0)]"
  unfolding triu_indices_def upt_2 by simp

lemma tril_indices_2_m1: "tril_indices 2 (- 1) = [(Suc 0, 0)]"
  unfolding tril_indices_def upt_2 by simp

lemma triu_indices_2_1: "triu_indices 2 1 = [(0, Suc 0)]"
  unfolding triu_indices_def upt_2 by simp

lemma zeros_2: "zeros 2 2 = [[0, 0], [0, 0]]"
  by (simp add: zeros_def numeral_2_eq_2)

lemma tri_to_full_2: "tri_to_full [a, b, c] 2 = Inr [a, b / sqrt 2, b / sqrt 2, c]"
  unfolding tri_to_full_def tril_indices_2_0 triu_indices_2_0 tril_indices_2_m1 triu_indices_2_1
    zeros_2 ravel_F_def upt_2 assign_array_def idiv_at_def Let_def
  by (simp add: set_item_def get_item_def)

subsection \<open>The forward vectorization\<close>

text \<open>
  The product of the format matrix with the stacked array lists the lower triangle in
  column-major order, each entry times its coefficient: \<open>1/\<surd>2\<close> off the diagonal and \<open>1/2\<close>
  on it.
\<close>

lemma forward_vectorize_eq:
  "forward_vectorize n M = Inr (lower_colmajor n (\<lambda>i j. format_coef i j * M ! i ! j))"
proof -
  let ?x = "ravel_F n n M"
  from matvec_psd_format_mat [of ?x n] obtain P where P: "psd_format_mat n = Inr P"
    and mv: "matvec P ?x = Inr (lower_colmajor n (\<lambda>i j. format_coef i j * ?x ! (i + n * j)))"
    by (auto simp: length_ravel_F)
  have "lower_colmajor n (\<lambda>i j. format_coef i j * ?x ! (i + n * j))
          = lower_colmajor n (\<lambda>i j. format_coef i j * M ! i ! j)"
    by (rule lower_colmajor_cong) (simp add: ravel_F_nth)
  with P mv show ?thesis
    by (simp add: forward_vectorize_def)
qed

lemma forward_vectorize_entries:
  "forward_vectorize n M
     = Inr (lower_colmajor n (\<lambda>i j. if i = j then M ! i ! i / 2 else M ! i ! j / sqrt 2))"
proof -
  have "lower_colmajor n (\<lambda>i j. format_coef i j * M ! i ! j)
          = lower_colmajor n (\<lambda>i j. if i = j then M ! i ! i / 2 else M ! i ! j / sqrt 2)"
    by (rule lower_colmajor_cong) (simp add: format_coef_def)
  then show ?thesis by (simp only: forward_vectorize_eq)
qed

lemma length_forward_vectorize:
  "forward_vectorize n M = Inr v \<Longrightarrow> length v = n * (n + 1) div 2"
  by (auto simp: forward_vectorize_eq length_lower_colmajor)

lemma format_coef_symmetric_sum:
  "format_coef i j * (x + x) = (if i = j then x else sqrt 2 * x)"
proof -
  have "2 / sqrt 2 = sqrt 2" by (simp add: real_div_sqrt)
  then have "(x + x) / sqrt 2 = sqrt 2 * x"
    by (metis mult.commute mult_2 times_divide_eq_right)
  then show ?thesis by (simp add: format_coef_def)
qed

lemma upt_1_2: "[Suc 0..<2] = [Suc 0]"
  by (simp add: upt_rec numeral_2_eq_2)

lemma lower_colmajor_2: "lower_colmajor 2 f = [f 0 0, f (Suc 0) 0, f (Suc 0) (Suc 0)]"
  by (simp add: lower_colmajor_def upt_2 upt_1_2)

lemma forward_vectorize_2:
  "forward_vectorize 2 [[a, b], [c, d]] = Inr [a / 2, c / sqrt 2, d / 2]"
  by (simp add: forward_vectorize_entries lower_colmajor_2)

text \<open>
  Claim C2, evaluated on the \<open>2\<times>2\<close> identity matrix: the product of the format matrix with
  the stacked matrix is \<open>[1/2, 0, 1/2]\<close>, where the spec's words give \<open>[1, 0, 1]\<close>. The matrix
  holds \<open>0.5\<close> on the diagonal positions, so the diagonal entries are halved and not left
  unscaled. The off-diagonal entry of the all-ones matrix is \<open>1/\<surd>2\<close>, as claimed.
\<close>

theorem forward_vectorize_halves_diagonal:
  "forward_vectorize 2 [[1, 0], [0, 1]] = Inr [1 / 2, 0, 1 / 2]
   \<and> spec_forward_vectorize 2 [[1, 0], [0, 1]] = [1, 0, 1]
   \<and> [1 / 2, 0, 1 / 2] \<noteq> [1, 0, 1 :: real]
   \<and> forward_vectorize 2 [[1, 1], [1, 1]] = Inr [1 / 2, 1 / sqrt 2, 1 / 2]
   \<and> spec_forward_vectorize 2 [[1, 1], [1, 1]] = [1, 1 / sqrt 2, 1]"
  by (simp add: forward_vectorize_2 spec_forward_vectorize_def lower_colmajor_2)

subsection \<open>The inverse vectorization on small sizes\<close>

lemma upt_1: "[0..<1] = [0]"
  by simp

lemma upt_3: "[0..<3] = [0, Suc 0, Suc (Suc 0)]"
  by (simp add: upt_rec numeral_3_eq_3)

lemma upt_1_3: "[Suc 0..<3] = [Suc 0, Suc (Suc 0)]"
  by (simp add: upt_rec numeral_3_eq_3)

lemma upt_2_3: "[Suc (Suc 0)..<3] = [Suc (Suc 0)]"
  by (simp add: upt_rec numeral_3_eq_3)

lemma tril_indices_3_0:
  "tril_indices 3 0 = [(0, 0), (Suc 0, 0), (Suc 0, Suc 0),
                       (Suc (Suc 0), 0), (Suc (Suc 0), Suc 0), (Suc (Suc 0), Suc (Suc 0))]"
  unfolding tril_indices_def upt_3 by simp

lemma triu_indices_3_0:
  "triu_indices 3 0 = [(0, 0), (0, Suc 0), (0, Suc (Suc 0)),
                       (Suc 0, Suc 0), (Suc 0, Suc (Suc 0)), (Suc (Suc 0), Suc (Suc 0))]"
  unfolding triu_indices_def upt_3 by simp

lemma tril_indices_3_m1:
  "tril_indices 3 (- 1) = [(Suc 0, 0), (Suc (Suc 0), 0), (Suc (Suc 0), Suc 0)]"
  unfolding tril_indices_def upt_3 by simp

lemma triu_indices_3_1:
  "triu_indices 3 1 = [(0, Suc 0), (0, Suc (Suc 0)), (Suc 0, Suc (Suc 0))]"
  unfolding triu_indices_def upt_3 by simp

lemma zeros_3: "zeros 3 3 = [[0, 0, 0], [0, 0, 0], [0, 0, 0]]"
  by (simp add: zeros_def numeral_3_eq_3)

lemma tri_to_full_1: "tri_to_full [a] (Suc 0) = Inr [a]"
  by (simp add: tri_to_full_def tril_indices_def triu_indices_def zeros_def ravel_F_def
      assign_array_def idiv_at_def set_item_def)

text \<open>
  For \<open>n = 3\<close> the second assignment, through \<open>tril_indices\<close>, walks the lower triangle row by
  row: it puts the third entry of the vector on the diagonal and the fourth below it.
\<close>

lemma tri_to_full_3:
  "tri_to_full [a, b, c, d, e, f] 3
     = Inr [a, b / sqrt 2, d / sqrt 2, b / sqrt 2, c, e / sqrt 2, c / sqrt 2, e / sqrt 2, f]"
  unfolding tri_to_full_def tril_indices_3_0 triu_indices_3_0 tril_indices_3_m1 triu_indices_3_1
    zeros_3 ravel_F_def upt_3 assign_array_def idiv_at_def Let_def
  by (simp add: set_item_def get_item_def)

lemma lower_colmajor_1: "lower_colmajor (Suc 0) f = [f 0 0]"
  by (simp add: lower_colmajor_def)

lemma lower_colmajor_3:
  "lower_colmajor 3 f = [f 0 0, f (Suc 0) 0, f (Suc (Suc 0)) 0,
                         f (Suc 0) (Suc 0), f (Suc (Suc 0)) (Suc 0), f (Suc (Suc 0)) (Suc (Suc 0))]"
  by (simp add: lower_colmajor_def upt_3 upt_1_3 upt_2_3)

text \<open>
  For sizes one and two \<open>tri_to_full\<close> does undo the product of the format matrix with the
  doubled matrix \<open>M + M\<^sup>T\<close> of a symmetric \<open>M\<close>.
\<close>

lemma round_trip_1:
  "forward_vectorize 1 [[a + a]] = Inr [a] \<and> tri_to_full [a] 1 = Inr (ravel_F 1 1 [[a]])"
  by (simp add: forward_vectorize_eq lower_colmajor_1 format_coef_def tri_to_full_1 ravel_F_def)

lemma round_trip_2:
  "forward_vectorize 2 [[a + a, b + b], [b + b, c + c]] = Inr [a, sqrt 2 * b, c]
   \<and> tri_to_full [a, sqrt 2 * b, c] 2 = Inr (ravel_F 2 2 [[a, b], [b, c]])"
proof -
  have "forward_vectorize 2 [[a + a, b + b], [b + b, c + c]]
          = Inr [format_coef 0 0 * (a + a), format_coef (Suc 0) 0 * (b + b),
                 format_coef (Suc 0) (Suc 0) * (c + c)]"
    by (simp add: forward_vectorize_eq lower_colmajor_2)
  then have "forward_vectorize 2 [[a + a, b + b], [b + b, c + c]] = Inr [a, sqrt 2 * b, c]"
    by (simp only: format_coef_symmetric_sum) simp
  moreover have "tri_to_full [a, sqrt 2 * b, c] 2 = Inr (ravel_F 2 2 [[a, b], [b, c]])"
    by (simp add: tri_to_full_2 ravel_F_def upt_2)
  ultimately show ?thesis by simp
qed

lemma tri_to_full_3_broadcast:
  "tri_to_full [a] 3
     = Inr [a, a / sqrt 2, a / sqrt 2, a / sqrt 2, a, a / sqrt 2, a / sqrt 2, a / sqrt 2, a]"
  unfolding tri_to_full_def tril_indices_3_0 triu_indices_3_0 tril_indices_3_m1 triu_indices_3_1
    zeros_3 ravel_F_def upt_3 assign_array_def assign_scalar_def idiv_at_def Let_def
  by (simp add: set_item_def get_item_def)

lemma tri_to_full_3_length:
  assumes "tri_to_full v 3 = Inr w"
  shows "length v = 6 \<or> length v = 1"
proof (rule ccontr)
  assume "\<not> (length v = 6 \<or> length v = 1)"
  then have "assign_array (zeros 3 3) (triu_indices 3 0) v = Inl ValueError"
    by (simp add: assign_array_def length_triu_indices_0)
  then have "tri_to_full v 3 = Inl ValueError"
    by (simp add: tri_to_full_def)
  with assms show False by simp
qed

lemma length_6_cases:
  assumes "length v = 6"
  obtains a b c d e f where "v = [a, b, c, d, e, f]"
proof -
  from assms have "\<exists>a b c d e f. v = [a, b, c, d, e, f]"
    by (auto simp: eval_nat_numeral length_Suc_conv)
  with that show ?thesis by blast
qed

lemma length_1_cases:
  assumes "length v = 1"
  obtains a where "v = [a]"
  using assms by (auto simp: length_Suc_conv)

text \<open>
  No vector at all is expanded by \<open>tri_to_full\<close> to the diagonal matrix with entries
  \<open>1, 2, 3\<close>: the entry \<open>c\<close> of the vector would have to be \<open>2\<close> on the diagonal and \<open>0\<close> in
  the upper triangle.
\<close>

lemma diagonal_3_not_reached:
  "tri_to_full v 3 \<noteq> Inr [1, 0, 0, 0, 2, 0, 0, 0, 3]"
proof
  assume t: "tri_to_full v 3 = Inr [1, 0, 0, 0, 2, 0, 0, 0, 3]"
  from tri_to_full_3_length [OF t] show False
  proof
    assume "length v = 6"
    then obtain a b c d e f where "v = [a, b, c, d, e, f]" by (rule length_6_cases)
    with t show False by (auto simp: tri_to_full_3)
  next
    assume "length v = 1"
    then obtain a where "v = [a]" by (rule length_1_cases)
    with t show False by (auto simp: tri_to_full_3_broadcast)
  qed
qed

text \<open>
  Claim C1, evaluated on the symmetric \<open>3\<times>3\<close> matrix \<open>M\<close> with diagonal \<open>1, 2, 3\<close> and zeros
  elsewhere. Under the doubled-then-halved convention the format matrix meets the doubled
  matrix \<open>M + M\<^sup>T\<close>, with diagonal \<open>2, 4, 6\<close>, and gives \<open>[1, 0, 0, 2, 0, 3]\<close>; \<open>tri_to_full\<close>
  of that vector is not \<open>M\<close> again: the diagonal entry \<open>2\<close> comes back as \<open>0\<close>, and \<open>2/\<surd>2\<close>
  appears in the last row of the first column. Applied to \<open>M\<close> itself the format matrix
  gives \<open>[1/2, 0, 0, 1, 0, 3/2]\<close>. Indeed \<open>tri_to_full\<close> returns \<open>M\<close> for no vector \<open>v\<close>
  whatever, so that no forward vectorization could make the round trip hold.
\<close>

theorem round_trip_fails_at_3:
  "symmetric_mat 3 [[1, 0, 0], [0, 2, 0], [0, 0, 3]]
   \<and> forward_vectorize 3 [[2, 0, 0], [0, 4, 0], [0, 0, 6]] = Inr [1, 0, 0, 2, 0, 3]
   \<and> tri_to_full [1, 0, 0, 2, 0, 3] 3 = Inr [1, 0, 2 / sqrt 2, 0, 0, 0, 0, 0, 3]
   \<and> ravel_F 3 3 [[1, 0, 0], [0, 2, 0], [0, 0, 3]] = [1, 0, 0, 0, 2, 0, 0, 0, 3]
   \<and> [1, 0, 2 / sqrt 2, 0, 0, 0, 0, 0, 3] \<noteq> [1, 0, 0, 0, 2, 0, 0, 0, 3 :: real]
   \<and> forward_vectorize 3 [[1, 0, 0], [0, 2, 0], [0, 0, 3]] = Inr [1 / 2, 0, 0, 1, 0, 3 / 2]
   \<and> tri_to_full v 3 \<noteq> Inr (ravel_F 3 3 [[1, 0, 0], [0, 2, 0], [0, 0, 3]])"
proof -
  have "symmetric_mat 3 [[1, 0, 0], [0, 2, 0], [0, 0, 3]]"
    by (simp add: symmetric_mat_def square_mat_def upt_3)
  moreover have "forward_vectorize 3 [[2, 0, 0], [0, 4, 0], [0, 0, 6]] = Inr [1, 0, 0, 2, 0, 3]"
    by (simp add: forward_vectorize_eq lower_colmajor_3 format_coef_def)
  moreover have "tri_to_full [1, 0, 0, 2, 0, 3] 3 = Inr [1, 0, 2 / sqrt 2, 0, 0, 0, 0, 0, 3]"
    by (simp add: tri_to_full_3)
  moreover have r: "ravel_F 3 3 [[1, 0, 0], [0, 2, 0], [0, 0, 3]] = [1, 0, 0, 0, 2, 0, 0, 0, 3]"
    by (simp add: ravel_F_def upt_3)
  moreover have "[1, 0, 2 / sqrt 2, 0, 0, 0, 0, 0, 3] \<noteq> [1, 0, 0, 0, 2, 0, 0, 0, 3 :: real]"
    by simp
  moreover have "forward_vectorize 3 [[1, 0, 0], [0, 2, 0], [0, 0, 3]]
                   = Inr [1 / 2, 0, 0, 1, 0, 3 / 2]"
    by (simp add: forward_vectorize_eq lower_colmajor_3 format_coef_def)
  moreover have "tri_to_full v 3 \<noteq> Inr (ravel_F 3 3 [[1, 0, 0], [0, 2, 0], [0, 0, 3]])"
    unfolding r by (rule diagonal_3_not_reached)
  ultimately show ?thesis by blast
qed

text \<open>
  Claim C3, evaluated on the vector \<open>[1, 2, 3, 4, 5, 6]\<close> with \<open>n = 3\<close>: the matrix returned
  by \<open>tri_to_full\<close> is not symmetric, its entry \<open>(2, 0)\<close> is \<open>4/\<surd>2\<close> and its entry \<open>(0, 2)\<close>
  is \<open>3/\<surd>2\<close>; and its diagonal entry \<open>(1, 1)\<close> is \<open>3\<close>, whereas the column-major lower
  triangle has \<open>4\<close> at that place.
\<close>

theorem tri_to_full_not_symmetric_at_3:
  "tri_to_full [1, 2, 3, 4, 5, 6] 3
     = Inr [1, 2 / sqrt 2, 4 / sqrt 2, 2 / sqrt 2, 3, 5 / sqrt 2, 3 / sqrt 2, 5 / sqrt 2, 6]
   \<and> [1, 2 / sqrt 2, 4 / sqrt 2, 2 / sqrt 2, 3, 5 / sqrt 2, 3 / sqrt 2, 5 / sqrt 2, 6] ! (2 + 3 * 0)
       \<noteq> [1, 2 / sqrt 2, 4 / sqrt 2, 2 / sqrt 2, 3, 5 / sqrt 2, 3 / sqrt 2, 5 / sqrt 2, 6] ! (0 + 3 * 2)
   \<and> [1, 2 / sqrt 2, 4 / sqrt 2, 2 / sqrt 2, 3, 5 / sqrt 2, 3 / sqrt 2, 5 / sqrt 2, 6] ! (1 + 3 * 1)
       \<noteq> [1, 2, 3, 4, 5, 6 :: real] ! 3"
proof -
  have "tri_to_full [1, 2, 3, 4, 5, 6] 3
     = Inr [1, 2 / sqrt 2, 4 / sqrt 2, 2 / sqrt 2, 3, 5 / sqrt 2, 3 / sqrt 2, 5 / sqrt 2, 6]"
    by (rule tri_to_full_3)
  moreover have "(4::real) / sqrt 2 \<noteq> 3 / sqrt 2" by simp
  ultimately show ?thesis by simp
qed

lemma upt_5: "[0..<5] = [0, Suc 0, Suc (Suc 0), Suc (Suc (Suc 0)), Suc (Suc (Suc (Suc 0)))]"
  by (simp add: upt_rec eval_nat_numeral)

lemma tril_indices_5_0: "tril_indices 5 0 = [(0, 0), (Suc 0, 0), (Suc 0, Suc 0), (Suc (Suc 0), 0), (Suc (Suc 0), Suc 0), (Suc (Suc 0), Suc (Suc 0)), (Suc (Suc (Suc 0)), 0), (Suc (Suc (Suc 0)), Suc 0), (Suc (Suc (Suc 0)), Suc (Suc 0)), (Suc (Suc (Suc 0)), Suc (Suc (Suc 0))), (Suc (Suc (Suc (Suc 0))), 0), (Suc (Suc (Suc (Suc 0))), Suc 0), (Suc (Suc (Suc (Suc 0))), Suc (Suc 0)), (Suc (Suc (Suc (Suc 0))), Suc (Suc (Suc 0))), (Suc (Suc (Suc (Suc 0))), Suc (Suc (Suc (Suc 0))))]"
  unfolding tril_indices_def upt_5 by simp

lemma triu_indices_5_0: "triu_indices 5 0 = [(0, 0), (0, Suc 0), (0, Suc (Suc 0)), (0, Suc (Suc (Suc 0))), (0, Suc (Suc (Suc (Suc 0)))), (Suc 0, Suc 0), (Suc 0, Suc (Suc 0)), (Suc 0, Suc (Suc (Suc 0))), (Suc 0, Suc (Suc (Suc (Suc 0)))), (Suc (Suc 0), Suc (Suc 0)), (Suc (Suc 0), Suc (Suc (Suc 0))), (Suc (Suc 0), Suc (Suc (Suc (Suc 0)))), (Suc (Suc (Suc 0)), Suc (Suc (Suc 0))), (Suc (Suc (Suc 0)), Suc (Suc (Suc (Suc 0)))), (Suc (Suc (Suc (Suc 0))), Suc (Suc (Suc (Suc 0))))]"
  unfolding triu_indices_def upt_5 by simp

lemma tril_indices_5_m1: "tril_indices 5 (- 1) = [(Suc 0, 0), (Suc (Suc 0), 0), (Suc (Suc 0), Suc 0), (Suc (Suc (Suc 0)), 0), (Suc (Suc (Suc 0)), Suc 0), (Suc (Suc (Suc 0)), Suc (Suc 0)), (Suc (Suc (Suc (Suc 0))), 0), (Suc (Suc (Suc (Suc 0))), Suc 0), (Suc (Suc (Suc (Suc 0))), Suc (Suc 0)), (Suc (Suc (Suc (Suc 0))), Suc (Suc (Suc 0)))]"
  unfolding tril_indices_def upt_5 by simp

lemma triu_indices_5_1: "triu_indices 5 1 = [(0, Suc 0), (0, Suc (Suc 0)), (0, Suc (Suc (Suc 0))), (0, Suc (Suc (Suc (Suc 0)))), (Suc 0, Suc (Suc 0)), (Suc 0, Suc (Suc (Suc 0))), (Suc 0, Suc (Suc (Suc (Suc 0)))), (Suc (Suc 0), Suc (Suc (Suc 0))), (Suc (Suc 0), Suc (Suc (Suc (Suc 0)))), (Suc (Suc (Suc 0)), Suc (Suc (Suc (Suc 0))))]"
  unfolding triu_indices_def upt_5 by simp

lemma zeros_5: "zeros 5 5 = [[0, 0, 0, 0, 0], [0, 0, 0, 0, 0], [0, 0, 0, 0, 0], [0, 0, 0, 0, 0], [0, 0, 0, 0, 0]]"
  by (simp add: zeros_def eval_nat_numeral)

lemma tri_to_full_5:
  "tri_to_full [v0, v1, v2, v3, v4, v5, v6, v7, v8, v9, v10, v11, v12, v13, v14] 5
     = Inr [v0, v1 / sqrt 2, v3 / sqrt 2, v6 / sqrt 2, v10 / sqrt 2, v1 / sqrt 2, v2, v4 / sqrt 2, v7 / sqrt 2, v11 / sqrt 2, v2 / sqrt 2, v6 / sqrt 2, v5, v8 / sqrt 2, v12 / sqrt 2, v3 / sqrt 2, v7 / sqrt 2, v10 / sqrt 2, v9, v13 / sqrt 2, v4 / sqrt 2, v8 / sqrt 2, v11 / sqrt 2, v13 / sqrt 2, v14]"
  unfolding tri_to_full_def tril_indices_5_0 triu_indices_5_0 tril_indices_5_m1 triu_indices_5_1
    zeros_5 ravel_F_def upt_5 assign_array_def idiv_at_def Let_def
  by (simp add: set_item_def get_item_def)

lemma lower_colmajor_5:
  "lower_colmajor 5 f = [f 0 0, f (Suc 0) 0, f (Suc (Suc 0)) 0, f (Suc (Suc (Suc 0))) 0, f (Suc (Suc (Suc (Suc 0)))) 0, f (Suc 0) (Suc 0), f (Suc (Suc 0)) (Suc 0), f (Suc (Suc (Suc 0))) (Suc 0), f (Suc (Suc (Suc (Suc 0)))) (Suc 0), f (Suc (Suc 0)) (Suc (Suc 0)), f (Suc (Suc (Suc 0))) (Suc (Suc 0)), f (Suc (Suc (Suc (Suc 0)))) (Suc (Suc 0)), f (Suc (Suc (Suc 0))) (Suc (Suc (Suc 0))), f (Suc (Suc (Suc (Suc 0)))) (Suc (Suc (Suc 0))), f (Suc (Suc (Suc (Suc 0)))) (Suc (Suc (Suc (Suc 0))))]"
  by (simp add: lower_colmajor_def upt_rec eval_nat_numeral)

text \<open>The same happens at size five.\<close>

lemma round_trip_fails_at_5:
  "symmetric_mat 5 [[1, 0, 0, 0, 0], [0, 2, 0, 0, 0], [0, 0, 3, 0, 0], [0, 0, 0, 4, 0], [0, 0, 0, 0, 5]]
   \<and> forward_vectorize 5 [[2, 0, 0, 0, 0], [0, 4, 0, 0, 0], [0, 0, 6, 0, 0], [0, 0, 0, 8, 0], [0, 0, 0, 0, 10]]
        = Inr [1, 0, 0, 0, 0, 2, 0, 0, 0, 3, 0, 0, 4, 0, 5]
   \<and> tri_to_full [1, 0, 0, 0, 0, 2, 0, 0, 0, 3, 0, 0, 4, 0, 5] 5
        = Inr [1, 0, 0, 0, 0, 0, 0, 0, 0, 0, 0, 0, 2, 0, 4 / sqrt 2, 0, 0, 0, 3, 0, 0, 0, 0, 0, 5]
   \<and> ravel_F 5 5 [[1, 0, 0, 0, 0], [0, 2, 0, 0, 0], [0, 0, 3, 0, 0], [0, 0, 0, 4, 0], [0, 0, 0, 0, 5]]
        = [1, 0, 0, 0, 0, 0, 2, 0, 0, 0, 0, 0, 3, 0, 0, 0, 0, 0, 4, 0, 0, 0, 0, 0, 5]
   \<and> [1, 0, 0, 0, 0, 0, 0, 0, 0, 0, 0, 0, 2, 0, 4 / sqrt 2, 0, 0, 0, 3, 0, 0, 0, 0, 0, 5]
        \<noteq> ([1, 0, 0, 0, 0, 0, 2, 0, 0, 0, 0, 0, 3, 0, 0, 0, 0, 0, 4, 0, 0, 0, 0, 0, 5] :: real list)"
proof -
  have "symmetric_mat 5 [[1, 0, 0, 0, 0], [0, 2, 0, 0, 0], [0, 0, 3, 0, 0], [0, 0, 0, 4, 0], [0, 0, 0, 0, 5]]"
    by (simp add: symmetric_mat_def square_mat_def upt_5)
  moreover have "forward_vectorize 5 [[2, 0, 0, 0, 0], [0, 4, 0, 0, 0], [0, 0, 6, 0, 0], [0, 0, 0, 8, 0], [0, 0, 0, 0, 10]]
        = Inr [1, 0, 0, 0, 0, 2, 0, 0, 0, 3, 0, 0, 4, 0, 5]"
    by (simp add: forward_vectorize_eq lower_colmajor_5 format_coef_def)
  moreover have "tri_to_full [1, 0, 0, 0, 0, 2, 0, 0, 0, 3, 0, 0, 4, 0, 5] 5
        = Inr [1, 0, 0, 0, 0, 0, 0, 0, 0, 0, 0, 0, 2, 0, 4 / sqrt 2, 0, 0, 0, 3, 0, 0, 0, 0, 0, 5]"
    by (simp add: tri_to_full_5)
  moreover have "ravel_F 5 5 [[1, 0, 0, 0, 0], [0, 2, 0, 0, 0], [0, 0, 3, 0, 0], [0, 0, 0, 4, 0], [0, 0, 0, 0, 5]]
        = [1, 0, 0, 0, 0, 0, 2, 0, 0, 0, 0, 0, 3, 0, 0, 0, 0, 0, 4, 0, 0, 0, 0, 0, 5]"
    by (simp add: ravel_F_def upt_5)
  moreover have "[1, 0, 0, 0, 0, 0, 0, 0, 0, 0, 0, 0, 2, 0, 4 / sqrt 2, 0, 0, 0, 3, 0, 0, 0, 0, 0, 5]
        \<noteq> ([1, 0, 0, 0, 0, 0, 2, 0, 0, 0, 0, 0, 3, 0, 0, 0, 0, 0, 4, 0, 0, 0, 0, 0, 5] :: real list)"
    by simp
  ultimately show ?thesis by blast
qed

subsection \<open>Splitting the homogenized data, and the objective offset\<close>

text \<open>
  Claim C4. When the cost vector has a last entry and the affine map a last column,
  \<open>apply\<close> returns data in which \<open>b\<close> is the last column of the map, \<open>A\<close> is the negation
  of its remaining columns, \<open>c\<close> is the cost vector without its last entry, and the inverse
  data keep that last entry as the offset; for every raw result with a usable status,
  \<open>invert\<close> with these inverse data reports the primal objective plus that offset.
\<close>

theorem apply_splits_and_invert_adds_offset:
  assumes c_ne: "prob_c problem \<noteq> []"
    and cols: "0 < n_cols (prob_A problem)"
    and wf: "wf_matrix (prob_A problem)"
  shows "\<exists>data inv_data. SCS_apply problem = Inr (data, inv_data)
     \<and> length (data_b data) = n_rows (prob_A problem)
     \<and> (\<forall>i < n_rows (prob_A problem).
           data_b data ! i = elems (prob_A problem) ! i ! (n_cols (prob_A problem) - 1))
     \<and> wf_matrix (data_A data)
     \<and> n_rows (data_A data) = n_rows (prob_A problem)
     \<and> n_cols (data_A data) = n_cols (prob_A problem) - 1
     \<and> (\<forall>i < n_rows (prob_A problem). \<forall>j < n_cols (prob_A problem) - 1.
           elems (data_A data) ! i ! j = - (elems (prob_A problem) ! i ! j))
     \<and> length (data_c data) = length (prob_c problem) - 1
     \<and> (\<forall>k < length (prob_c problem) - 1. data_c data ! k = prob_c problem ! k)
     \<and> inv_offset inv_data = prob_c problem ! (length (prob_c problem) - 1)
     \<and> (\<forall>r st. STATUS_MAP (info_status (res_info r)) = Some st \<and> st \<in> set SOLUTION_PRESENT \<longrightarrow>
           (\<exists>sol. invert r inv_data = Inr sol
              \<and> sol_opt_val sol =
                  Value (info_pobj (res_info r) + prob_c problem ! (length (prob_c problem) - 1))))"
proof -
  let ?A = "prob_A problem" and ?c = "prob_c problem"
  let ?data = "\<lparr>data_dims = constr_dims problem, data_c = butlast ?c,
                 data_A = \<lparr>n_rows = n_rows ?A, n_cols = n_cols ?A - 1,
                           elems = map (\<lambda>r. map uminus (butlast r)) (elems ?A)\<rparr>,
                 data_b = map last (elems ?A)\<rparr>"
  let ?inv = "\<lparr>inv_var_id = x_id problem, inv_dims = constr_dims problem, inv_offset = last ?c\<rparr>"
  have len: "length (elems ?A) = n_rows ?A"
    and row: "\<And>i. i < n_rows ?A \<Longrightarrow> length (elems ?A ! i) = n_cols ?A"
    using wf by (auto simp: wf_matrix_def list_all_iff)
  have ap: "SCS_apply problem = Inr (?data, ?inv)"
    using c_ne cols by (simp add: SCS_apply_def Let_def)
  have b: "\<forall>i < n_rows ?A. data_b ?data ! i = elems ?A ! i ! (n_cols ?A - 1)"
  proof (intro allI impI)
    fix i assume i: "i < n_rows ?A"
    with row cols have "elems ?A ! i \<noteq> []" by fastforce
    then have "last (elems ?A ! i) = elems ?A ! i ! (n_cols ?A - 1)"
      using row [OF i] by (simp add: last_conv_nth)
    then show "data_b ?data ! i = elems ?A ! i ! (n_cols ?A - 1)"
      using i len by simp
  qed
  have wfA: "wf_matrix (data_A ?data)"
    using wf by (auto simp: wf_matrix_def list_all_iff)
  have a: "\<forall>i < n_rows ?A. \<forall>j < n_cols ?A - 1.
      elems (data_A ?data) ! i ! j = - (elems ?A ! i ! j)"
    using len row by (simp add: nth_butlast)
  have c: "\<forall>k < length ?c - 1. data_c ?data ! k = ?c ! k"
    by (simp add: nth_butlast)
  have off: "inv_offset ?inv = ?c ! (length ?c - 1)"
    using c_ne by (simp add: last_conv_nth)
  have inv: "\<forall>r st. STATUS_MAP (info_status (res_info r)) = Some st \<and> st \<in> set SOLUTION_PRESENT \<longrightarrow>
           (\<exists>sol. invert r ?inv = Inr sol
              \<and> sol_opt_val sol = Value (info_pobj (res_info r) + ?c ! (length ?c - 1)))"
    using c_ne by (auto simp: invert_def Let_def last_conv_nth)
  show ?thesis
    apply (rule exI [of _ ?data], rule exI [of _ ?inv])
    using ap b wfA a c off inv len by simp
qed

theorem apply_splits_and_invert_adds_offset_witness:
  "\<exists>data inv_data.
     SCS_apply \<lparr>x_id = 7, constr_dims = \<lparr>zero_dim = 0, nonpos_dim = 1, soc_dims = [], exp_dim = 0, psd_dims = []\<rparr>,
                prob_c = [1, 5], prob_A = \<lparr>n_rows = 1, n_cols = 2, elems = [[1, -1]]\<rparr>\<rparr> = Inr (data, inv_data)
     \<and> data_b data = [-1] \<and> elems (data_A data) = [[-1]] \<and> data_c data = [1] \<and> inv_offset inv_data = 5
     \<and> (\<exists>sol. invert \<lparr>res_x = [1], res_y = [1], res_s = [0],
                  res_info = \<lparr>info_status = ''Solved'', info_pobj = 1, info_solveTime = 0,
                              info_setupTime = 0, info_iter = 3\<rparr>\<rparr> inv_data = Inr sol
              \<and> sol_opt_val sol = Value 6)"
  using apply_splits_and_invert_adds_offset [of
      "\<lparr>x_id = 7, constr_dims = \<lparr>zero_dim = 0, nonpos_dim = 1, soc_dims = [], exp_dim = 0, psd_dims = []\<rparr>,
        prob_c = [1, 5], prob_A = \<lparr>n_rows = 1, n_cols = 2, elems = [[1, -1]]\<rparr>\<rparr>"]
  by (simp add: wf_matrix_def SCS_apply_def invert_def STATUS_MAP_def SOLUTION_PRESENT_def Let_def)

subsection \<open>The status mapping\<close>

lemma dom_STATUS_MAP:
  "dom STATUS_MAP = {''Solved'', ''Solved/Inaccurate'', ''Unbounded'', ''Unbounded/Inaccurate'',
     ''Infeasible'', ''Infeasible/Inaccurate'', ''Failure'', ''Indeterminate'', ''Interrupted''}"
  unfolding STATUS_MAP_def dom_map_of_conv_image_fst by auto

text \<open>
  Claim C5. \<open>STATUS_MAP\<close> is defined on exactly nine status strings and maps each to one
  status as listed. For the strings \<open>Solved\<close> and \<open>Solved/Inaccurate\<close> the solution returned
  by \<open>invert\<close> holds the primal vector under the variable identifier and the dual vector
  under the dual identifier; for each of the other seven it is the failure record of the
  mapped status, with empty primal and dual maps.
\<close>

theorem status_map_total_and_invert_population:
  "dom STATUS_MAP = {''Solved'', ''Solved/Inaccurate'', ''Unbounded'', ''Unbounded/Inaccurate'',
     ''Infeasible'', ''Infeasible/Inaccurate'', ''Failure'', ''Indeterminate'', ''Interrupted''}
   \<and> card (dom STATUS_MAP) = 9
   \<and> STATUS_MAP ''Solved'' = Some OPTIMAL
   \<and> STATUS_MAP ''Solved/Inaccurate'' = Some OPTIMAL_INACCURATE
   \<and> STATUS_MAP ''Unbounded'' = Some UNBOUNDED
   \<and> STATUS_MAP ''Unbounded/Inaccurate'' = Some UNBOUNDED_INACCURATE
   \<and> STATUS_MAP ''Infeasible'' = Some INFEASIBLE
   \<and> STATUS_MAP ''Infeasible/Inaccurate'' = Some INFEASIBLE_INACCURATE
   \<and> STATUS_MAP ''Failure'' = Some SOLVER_ERROR
   \<and> STATUS_MAP ''Indeterminate'' = Some SOLVER_ERROR
   \<and> STATUS_MAP ''Interrupted'' = Some SOLVER_ERROR
   \<and> (info_status (res_info r) \<in> {''Solved'', ''Solved/Inaccurate''} \<longrightarrow>
        (\<exists>sol. invert r inv_data = Inr sol
           \<and> sol_status sol = the (STATUS_MAP (info_status (res_info r)))
           \<and> sol_primal_vars sol = [inv_var_id inv_data \<mapsto> res_x r]
           \<and> sol_dual_vars sol = [DUAL_VAR_ID \<mapsto> res_y r]))
   \<and> (info_status (res_info r) \<in> {''Unbounded'', ''Unbounded/Inaccurate'', ''Infeasible'',
          ''Infeasible/Inaccurate'', ''Failure'', ''Indeterminate'', ''Interrupted''} \<longrightarrow>
        (\<exists>sol. invert r inv_data = Inr sol
           \<and> sol = failure_solution (the (STATUS_MAP (info_status (res_info r))))
           \<and> sol_status sol = the (STATUS_MAP (info_status (res_info r)))
           \<and> sol_primal_vars sol = Map.empty
           \<and> sol_dual_vars sol = Map.empty))"
proof -
  have c: "card (dom STATUS_MAP) = 9"
    unfolding dom_STATUS_MAP by simp
  have m: "STATUS_MAP ''Solved'' = Some OPTIMAL"
    "STATUS_MAP ''Solved/Inaccurate'' = Some OPTIMAL_INACCURATE"
    "STATUS_MAP ''Unbounded'' = Some UNBOUNDED"
    "STATUS_MAP ''Unbounded/Inaccurate'' = Some UNBOUNDED_INACCURATE"
    "STATUS_MAP ''Infeasible'' = Some INFEASIBLE"
    "STATUS_MAP ''Infeasible/Inaccurate'' = Some INFEASIBLE_INACCURATE"
    "STATUS_MAP ''Failure'' = Some SOLVER_ERROR"
    "STATUS_MAP ''Indeterminate'' = Some SOLVER_ERROR"
    "STATUS_MAP ''Interrupted'' = Some SOLVER_ERROR"
    by (simp_all add: STATUS_MAP_def)
  have ok: "info_status (res_info r) \<in> {''Solved'', ''Solved/Inaccurate''} \<longrightarrow>
        (\<exists>sol. invert r inv_data = Inr sol
           \<and> sol_status sol = the (STATUS_MAP (info_status (res_info r)))
           \<and> sol_primal_vars sol = [inv_var_id inv_data \<mapsto> res_x r]
           \<and> sol_dual_vars sol = [DUAL_VAR_ID \<mapsto> res_y r])"
    by (auto simp: invert_def m SOLUTION_PRESENT_def Let_def)
  have bad: "info_status (res_info r) \<in> {''Unbounded'', ''Unbounded/Inaccurate'', ''Infeasible'',
          ''Infeasible/Inaccurate'', ''Failure'', ''Indeterminate'', ''Interrupted''} \<longrightarrow>
        (\<exists>sol. invert r inv_data = Inr sol
           \<and> sol = failure_solution (the (STATUS_MAP (info_status (res_info r))))
           \<and> sol_status sol = the (STATUS_MAP (info_status (res_info r)))
           \<and> sol_primal_vars sol = Map.empty
           \<and> sol_dual_vars sol = Map.empty)"
    by (auto simp: invert_def m SOLUTION_PRESENT_def Let_def failure_solution_def)
  from dom_STATUS_MAP c m ok bad show ?thesis by blast
qed

theorem status_map_total_and_invert_population_witness:
  "(\<exists>sol. invert previous_result
            \<lparr>inv_var_id = 7, inv_dims = data_dims lp_data, inv_offset = 5\<rparr> = Inr sol
      \<and> sol_status sol = OPTIMAL
      \<and> sol_primal_vars sol = [7 \<mapsto> [1]] \<and> sol_dual_vars sol = [DUAL_VAR_ID \<mapsto> [1]])
   \<and> (\<exists>sol. invert infeasible_result
            \<lparr>inv_var_id = 7, inv_dims = data_dims lp_data, inv_offset = 5\<rparr> = Inr sol
      \<and> sol_status sol = INFEASIBLE
      \<and> sol_primal_vars sol = Map.empty \<and> sol_dual_vars sol = Map.empty)"
  using status_map_total_and_invert_population
      [of previous_result "\<lparr>inv_var_id = 7, inv_dims = data_dims lp_data, inv_offset = 5\<rparr>"]
    status_map_total_and_invert_population
      [of infeasible_result "\<lparr>inv_var_id = 7, inv_dims = data_dims lp_data, inv_offset = 5\<rparr>"]
  by (simp add: previous_result_def infeasible_result_def STATUS_MAP_def failure_solution_def)

subsection \<open>Diagnostics\<close>

text \<open>
  Claim C6, evaluated on a raw result with the status \<open>Infeasible\<close>, solve time \<open>1.5\<close>, setup
  time \<open>0.25\<close> and \<open>20\<close> iterations: the solution returned by \<open>invert\<close> has none of the
  three diagnostics in its attribute bag, and it is the same solution when the raw result
  reports other diagnostics.
\<close>

theorem invert_failure_has_no_diagnostics:
  "(\<exists>sol. invert infeasible_result
            \<lparr>inv_var_id = 0,
             inv_dims = \<lparr>zero_dim = 0, nonpos_dim = 1, soc_dims = [], exp_dim = 0, psd_dims = []\<rparr>,
             inv_offset = 0\<rparr> = Inr sol
     \<and> sol_status sol = INFEASIBLE
     \<and> sol_attr sol SOLVE_TIME = None \<and> sol_attr sol SETUP_TIME = None
     \<and> sol_attr sol NUM_ITERS = None)
   \<and> invert (infeasible_result\<lparr>res_info := (res_info infeasible_result)
               \<lparr>info_solveTime := 5 / 2, info_setupTime := 1, info_iter := 99\<rparr>\<rparr>) inv_data
       = invert infeasible_result inv_data"
  by (simp add: invert_def infeasible_result_def STATUS_MAP_def SOLUTION_PRESENT_def Let_def
      failure_solution_def)

text \<open>On the path of a usable status the three diagnostics are carried through.\<close>

lemma invert_usable_has_diagnostics:
  assumes "STATUS_MAP (info_status (res_info r)) = Some st" and "st \<in> set SOLUTION_PRESENT"
  shows "\<exists>sol. invert r inv_data = Inr sol
     \<and> sol_attr sol SOLVE_TIME = Some (PyFloat (info_solveTime (res_info r)))
     \<and> sol_attr sol SETUP_TIME = Some (PyFloat (info_setupTime (res_info r)))
     \<and> sol_attr sol NUM_ITERS = Some (PyInt (info_iter (res_info r)))"
  using assms
  by (simp add: invert_def Let_def SOLVE_TIME_def SETUP_TIME_def NUM_ITERS_def)

subsection \<open>Extraction of dual values\<close>



text \<open>
  Whenever the call returns for a PSD constraint, on whatever dual vector, the new offset is
  the old one plus \<open>n(n+1)/2\<close> and the value is \<open>tri_to_full\<close> of the slice between the two
  offsets.
\<close>

lemma extract_dual_value_PSD_result:
  assumes "extract_dual_value generic result_vec offset (PSD n) = Inr (v, new_offset)"
  shows "new_offset = offset + n * (n + 1) div 2
     \<and> (\<exists>full. v = Array full
           \<and> tri_to_full (py_slice result_vec offset (offset + n * (n + 1) div 2)) n = Inr full)"
  using assms
  by (auto simp: extract_dual_value_def Let_def split: sum.splits)




subsection \<open>The solver call\<close>

text \<open>
  The call returns exactly when the options hold no \<open>verbose\<close> key; then the result is what
  the solver returns for the request, the cones, the verbosity flag and the updated options.
\<close>

lemma solve_via_data_fails:
  "''verbose'' \<in> dom solver_opts \<Longrightarrow>
     solve_via_data scs_solve data warm_start verbose solver_opts solver_cache = Inl TypeError"
  by (auto simp: solve_via_data_def Let_def)

lemma solve_via_data_returns:
  assumes "''verbose'' \<notin> dom solver_opts"
  shows "\<exists>args.
      solve_via_data scs_solve data warm_start verbose solver_opts solver_cache
        = Inr (scs_solve args (dims_to_solver_dict (data_dims data)) verbose
                 (solver_opts(''eps'' \<mapsto>
                    (case solver_opts ''eps'' of None \<Rightarrow> PyFloat (1 / 10000) | Some e \<Rightarrow> e))),
               solver_opts(''eps'' \<mapsto>
                    (case solver_opts ''eps'' of None \<Rightarrow> PyFloat (1 / 10000) | Some e \<Rightarrow> e)),
               (case solver_cache of
                  None \<Rightarrow> None
                | Some cache \<Rightarrow>
                    Some (cache(name \<mapsto>
                      scs_solve args (dims_to_solver_dict (data_dims data)) verbose
                        (solver_opts(''eps'' \<mapsto>
                           (case solver_opts ''eps'' of None \<Rightarrow> PyFloat (1 / 10000)
                            | Some e \<Rightarrow> e)))))))
      \<and> args ''A'' = Some (MatArg (data_A data))
      \<and> args ''b'' = Some (VecArg (data_b data))
      \<and> args ''c'' = Some (VecArg (data_c data))
      \<and> (\<forall>cache prev. warm_start \<and> solver_cache = Some cache \<and> cache name = Some prev \<longrightarrow>
            args ''x'' = Some (VecArg (res_x prev))
            \<and> args ''y'' = Some (VecArg (res_y prev))
            \<and> args ''s'' = Some (VecArg (res_s prev)))
      \<and> (\<not> (warm_start \<and> (\<exists>cache. solver_cache = Some cache \<and> name \<in> dom cache)) \<longrightarrow>
            dom args = {''A'', ''b'', ''c''})"
proof -
  let ?args0 = "[''A'' \<mapsto> MatArg (data_A data), ''b'' \<mapsto> VecArg (data_b data),
                 ''c'' \<mapsto> VecArg (data_c data)]"
  let ?args = "if warm_start \<and> solver_cache \<noteq> None \<and> name \<in> dom (the solver_cache)
               then ?args0(''x'' \<mapsto> VecArg (res_x (the (the solver_cache name))),
                           ''y'' \<mapsto> VecArg (res_y (the (the solver_cache name))),
                           ''s'' \<mapsto> VecArg (res_s (the (the solver_cache name))))
               else ?args0"
  show ?thesis
    using assms
    by (intro exI [of _ ?args]) (auto simp: solve_via_data_def Let_def split: option.splits)
qed

lemma echo_run_warm:
  "solve_via_data echo_solver lp_data True False Map.empty (Some [name \<mapsto> previous_result])
     = Inr (warm_result, [''eps'' \<mapsto> PyFloat (1 / 10000)], Some [name \<mapsto> warm_result])"
  by (simp add: solve_via_data_def Let_def echo_solver_def echo_vec_def previous_result_def
      warm_result_def)

lemma echo_run_cold:
  "solve_via_data echo_solver lp_data False True
       [''max_iters'' \<mapsto> PyInt 500, ''eps'' \<mapsto> PyFloat (1 / 1000)] None
     = Inr (cold_result, [''max_iters'' \<mapsto> PyInt 500, ''eps'' \<mapsto> PyFloat (1 / 1000)], None)"
  by (simp add: solve_via_data_def Let_def echo_solver_def echo_vec_def cold_result_def)

text \<open>
  Claim C8. A call to \<open>solve_via_data\<close> whose options hold no \<open>verbose\<close> key returns the
  result of the solver on a request that holds the previous \<open>x\<close>, \<open>y\<close>, \<open>s\<close> when the
  warm-start flag is set and the supplied cache has an entry under the solver's name, and
  that has no keys besides \<open>A\<close>, \<open>b\<close>, \<open>c\<close> otherwise; a supplied cache afterwards maps the
  solver's name to that result and is unchanged elsewhere, and no cache stays no cache.
\<close>

theorem solve_via_data_warm_start_and_cache:
  assumes "''verbose'' \<notin> dom solver_opts"
  shows "\<exists>args results opts'.
       solve_via_data scs_solve data warm_start verbose solver_opts solver_cache
         = Inr (results, opts',
                (case solver_cache of
                   None \<Rightarrow> None
                 | Some cache \<Rightarrow> Some (cache(name \<mapsto> results))))
     \<and> results = scs_solve args (dims_to_solver_dict (data_dims data)) verbose opts'
     \<and> args ''A'' = Some (MatArg (data_A data))
     \<and> args ''b'' = Some (VecArg (data_b data))
     \<and> args ''c'' = Some (VecArg (data_c data))
     \<and> (\<forall>cache prev. warm_start \<and> solver_cache = Some cache \<and> cache name = Some prev \<longrightarrow>
           args ''x'' = Some (VecArg (res_x prev))
           \<and> args ''y'' = Some (VecArg (res_y prev))
           \<and> args ''s'' = Some (VecArg (res_s prev)))
     \<and> (\<not> (warm_start \<and> (\<exists>cache. solver_cache = Some cache \<and> name \<in> dom cache)) \<longrightarrow>
           dom args = {''A'', ''b'', ''c''})"
proof -
  let ?opts = "solver_opts(''eps'' \<mapsto>
                 (case solver_opts ''eps'' of None \<Rightarrow> PyFloat (1 / 10000) | Some e \<Rightarrow> e))"
  from solve_via_data_returns [OF assms, of scs_solve data warm_start verbose solver_cache]
  obtain args where a:
    "solve_via_data scs_solve data warm_start verbose solver_opts solver_cache
        = Inr (scs_solve args (dims_to_solver_dict (data_dims data)) verbose ?opts, ?opts,
               (case solver_cache of
                  None \<Rightarrow> None
                | Some cache \<Rightarrow>
                    Some (cache(name \<mapsto>
                      scs_solve args (dims_to_solver_dict (data_dims data)) verbose ?opts))))"
    "args ''A'' = Some (MatArg (data_A data))"
    "args ''b'' = Some (VecArg (data_b data))"
    "args ''c'' = Some (VecArg (data_c data))"
    "\<forall>cache prev. warm_start \<and> solver_cache = Some cache \<and> cache name = Some prev \<longrightarrow>
            args ''x'' = Some (VecArg (res_x prev))
            \<and> args ''y'' = Some (VecArg (res_y prev))
            \<and> args ''s'' = Some (VecArg (res_s prev))"
    "\<not> (warm_start \<and> (\<exists>cache. solver_cache = Some cache \<and> name \<in> dom cache)) \<longrightarrow>
            dom args = {''A'', ''b'', ''c''}"
    by (elim exE conjE) (rule that)
  show ?thesis
    by (rule exI [of _ args],
        rule exI [of _ "scs_solve args (dims_to_solver_dict (data_dims data)) verbose ?opts"],
        rule exI [of _ ?opts])
      (intro conjI a refl)
qed

lemma nv_empty: "''verbose'' \<notin> dom (Map.empty :: string \<rightharpoonup> py_val)"
  by simp

lemma nv_opts: "''verbose'' \<notin> dom [''max_iters'' \<mapsto> PyInt 500, ''eps'' \<mapsto> PyFloat (1 / 1000)]"
  by simp

theorem solve_via_data_warm_start_and_cache_witness:
  "solve_via_data echo_solver lp_data True False Map.empty (Some [name \<mapsto> previous_result])
     = Inr (warm_result, [''eps'' \<mapsto> PyFloat (1 / 10000)], Some [name \<mapsto> warm_result])
   \<and> res_x warm_result = res_x previous_result
   \<and> res_y warm_result = res_y previous_result
   \<and> res_s warm_result = res_s previous_result
   \<and> solve_via_data echo_solver lp_data False True
          [''max_iters'' \<mapsto> PyInt 500, ''eps'' \<mapsto> PyFloat (1 / 1000)] None
       = Inr (cold_result, [''max_iters'' \<mapsto> PyInt 500, ''eps'' \<mapsto> PyFloat (1 / 1000)], None)
   \<and> res_x cold_result = [] \<and> res_y cold_result = [] \<and> res_s cold_result = []"
  using solve_via_data_warm_start_and_cache [OF nv_empty, of echo_solver lp_data True False
      "Some [name \<mapsto> previous_result]"]
    solve_via_data_warm_start_and_cache [OF nv_opts, of echo_solver lp_data False True None]
  by (simp only: echo_run_warm echo_run_cold)
    (simp add: warm_result_def cold_result_def previous_result_def)

text \<open>
  Claim C9. On a call whose options hold no \<open>verbose\<close> key the solver is called, and the
  options handed to it hold under \<open>eps\<close> the caller's value when the caller's options have
  that key, and \<open>1e-4\<close> otherwise.
\<close>

theorem solve_via_data_eps_default:
  assumes "''verbose'' \<notin> dom solver_opts"
  shows "\<exists>args opts_sent opts' cache'.
       solve_via_data scs_solve data warm_start verbose solver_opts solver_cache
         = Inr (scs_solve args (dims_to_solver_dict (data_dims data)) verbose opts_sent,
                opts', cache')
     \<and> (\<forall>e. solver_opts ''eps'' = Some e \<longrightarrow> opts_sent ''eps'' = Some e)
     \<and> (solver_opts ''eps'' = None \<longrightarrow> opts_sent ''eps'' = Some (PyFloat (1 / 10000)))"
proof -
  let ?opts = "solver_opts(''eps'' \<mapsto>
                 (case solver_opts ''eps'' of None \<Rightarrow> PyFloat (1 / 10000) | Some e \<Rightarrow> e))"
  let ?cache = "\<lambda>args. (case solver_cache of
                  None \<Rightarrow> None
                | Some cache \<Rightarrow>
                    Some (cache(name \<mapsto>
                      scs_solve args (dims_to_solver_dict (data_dims data)) verbose ?opts)))"
  from solve_via_data_returns [OF assms, of scs_solve data warm_start verbose solver_cache]
  obtain args where a:
    "solve_via_data scs_solve data warm_start verbose solver_opts solver_cache
        = Inr (scs_solve args (dims_to_solver_dict (data_dims data)) verbose ?opts, ?opts,
               ?cache args)"
    by (elim exE conjE) (rule that)
  have e: "(\<forall>e. solver_opts ''eps'' = Some e \<longrightarrow> ?opts ''eps'' = Some e)
     \<and> (solver_opts ''eps'' = None \<longrightarrow> ?opts ''eps'' = Some (PyFloat (1 / 10000)))"
    by simp
  show ?thesis
    by (rule exI [of _ args], rule exI [of _ ?opts], rule exI [of _ ?opts],
        rule exI [of _ "?cache args"])
      (intro conjI a e [THEN conjunct1] e [THEN conjunct2])
qed

theorem solve_via_data_eps_default_witness:
  "solve_via_data echo_solver lp_data True False Map.empty (Some [name \<mapsto> previous_result])
     = Inr (warm_result, [''eps'' \<mapsto> PyFloat (1 / 10000)], Some [name \<mapsto> warm_result])
   \<and> info_pobj (res_info warm_result) = 1 / 10000
   \<and> solve_via_data echo_solver lp_data False True
          [''max_iters'' \<mapsto> PyInt 500, ''eps'' \<mapsto> PyFloat (1 / 1000)] None
       = Inr (cold_result, [''max_iters'' \<mapsto> PyInt 500, ''eps'' \<mapsto> PyFloat (1 / 1000)], None)
   \<and> info_pobj (res_info cold_result) = 1 / 1000"
  using solve_via_data_eps_default [OF nv_empty, of echo_solver lp_data True False
      "Some [name \<mapsto> previous_result]"]
    solve_via_data_eps_default [OF nv_opts, of echo_solver lp_data False True None]
  by (simp only: echo_run_warm echo_run_cold)
    (simp add: warm_result_def cold_result_def)

text \<open>
  Claim C10. A call to \<open>solve_via_data\<close> whose options hold no \<open>verbose\<close> key returns, and
  the caller's option map then holds \<open>eps\<close> (the caller's value if there was one, else
  \<open>1e-4\<close>); every other key is as before, none added and none removed.
\<close>

theorem solve_via_data_mutates_only_eps:
  assumes "''verbose'' \<notin> dom solver_opts"
  shows "\<exists>results opts' cache'.
       solve_via_data scs_solve data warm_start verbose solver_opts solver_cache
         = Inr (results, opts', cache')
     \<and> (\<forall>e. solver_opts ''eps'' = Some e \<longrightarrow> opts' ''eps'' = Some e)
     \<and> (solver_opts ''eps'' = None \<longrightarrow> opts' ''eps'' = Some (PyFloat (1 / 10000)))
     \<and> (\<forall>k. k \<noteq> ''eps'' \<longrightarrow> opts' k = solver_opts k)
     \<and> dom opts' = insert ''eps'' (dom solver_opts)"
proof -
  let ?opts = "solver_opts(''eps'' \<mapsto>
                 (case solver_opts ''eps'' of None \<Rightarrow> PyFloat (1 / 10000) | Some e \<Rightarrow> e))"
  let ?cache = "\<lambda>args. (case solver_cache of
                  None \<Rightarrow> None
                | Some cache \<Rightarrow>
                    Some (cache(name \<mapsto>
                      scs_solve args (dims_to_solver_dict (data_dims data)) verbose ?opts)))"
  from solve_via_data_returns [OF assms, of scs_solve data warm_start verbose solver_cache]
  obtain args where a:
    "solve_via_data scs_solve data warm_start verbose solver_opts solver_cache
        = Inr (scs_solve args (dims_to_solver_dict (data_dims data)) verbose ?opts, ?opts,
               ?cache args)"
    by (elim exE conjE) (rule that)
  have e: "(\<forall>e. solver_opts ''eps'' = Some e \<longrightarrow> ?opts ''eps'' = Some e)"
    "(solver_opts ''eps'' = None \<longrightarrow> ?opts ''eps'' = Some (PyFloat (1 / 10000)))"
    "(\<forall>k. k \<noteq> ''eps'' \<longrightarrow> ?opts k = solver_opts k)"
    "dom ?opts = insert ''eps'' (dom solver_opts)"
    by simp_all
  show ?thesis
    by (rule exI [of _ "scs_solve args (dims_to_solver_dict (data_dims data)) verbose ?opts"],
        rule exI [of _ ?opts], rule exI [of _ "?cache args"])
      (intro conjI a e)
qed

theorem solve_via_data_mutates_only_eps_witness:
  "(\<exists>results cache'.
      solve_via_data echo_solver lp_data True False Map.empty (Some [name \<mapsto> previous_result])
        = Inr (results, [''eps'' \<mapsto> PyFloat (1 / 10000)], cache'))
   \<and> (\<exists>results cache'.
      solve_via_data echo_solver lp_data False True
          [''max_iters'' \<mapsto> PyInt 500, ''eps'' \<mapsto> PyFloat (1 / 1000)] None
        = Inr (results, [''max_iters'' \<mapsto> PyInt 500, ''eps'' \<mapsto> PyFloat (1 / 1000)], cache'))"
  using solve_via_data_mutates_only_eps [OF nv_empty, of echo_solver lp_data True False
      "Some [name \<mapsto> previous_result]"]
    solve_via_data_mutates_only_eps [OF nv_opts, of echo_solver lp_data False True None]
  by (simp only: echo_run_warm echo_run_cold) simp

end
